theory Spec2Isabelle
  imports Main "HOL-Library.List_Lexorder"
begin

section \<open>Values of the program\<close>

text \<open>
  A Python \<open>str\<close> is a sequence of Unicode code points, compared code point by code
  point: it is a list of naturals under the lexicographic order. \<open>lit\<close> turns an
  ASCII literal into such a string; the Ukrainian labels of the source are written out
  as their code points.
\<close>

type_synonym pystr = "nat list"

definition lit :: "string \<Rightarrow> pystr" where
  "lit s = map of_char s"

text \<open>The exceptions (all subclasses of \<open>Exception\<close>) that the modelled code can meet.\<close>

datatype py_error =
    FileNotFoundError
  | PermissionError
  | IsADirectoryError
  | OSError
  | UnicodeDecodeError
  | UnicodeEncodeError
  | JSONDecodeError
  | CsvError
  | StopIteration
  | KeyError
  | TypeError
  | AttributeError

text \<open>
  What a call does: it returns a value, it raises, or the model does not say what it does
  (\<open>Unmodelled\<close>): Python would go on with a value that the typed record of a task
  cannot hold (a title that is a number, a tag list that is a string), or would read a
  file in the other format or a file that a failed write has cut short, which only a
  model of the file's text could settle.
\<close>

datatype 'a outcome = Return 'a | Raise py_error | Unmodelled

text \<open>
  What \<open>json.load\<close> returns (floats left out). An object is the association list of
  its dict, looked up with \<open>map_of\<close>.
\<close>

datatype json =
    JNull
  | JBool bool
  | JInt int
  | JStr pystr
  | JArr "json list"
  | JObj "(pystr \<times> json) list"

section \<open>Task\<close>

text \<open>
  The fields of \<open>class Task\<close>, typed as the data model has them. \<open>Task.__init__\<close>
  leaves \<open>id\<close> unset and \<open>add_task\<close> assigns it in its next statement, \<open>from_dict\<close>
  assigns \<open>data["id"]\<close>: no task is stored without one, so the record holds the
  integer itself. \<open>None\<close> for \<open>priority\<close> and \<open>due_date\<close> is \<open>None\<close>.
\<close>

record task =
  task_id :: int
  title :: pystr
  completed :: bool
  created_at :: pystr
  priority :: "pystr option"
  due_date :: "pystr option"
  tags :: "pystr list"

text \<open>\<open>mark_completed\<close>: \<open>self.completed = True\<close>.\<close>

definition mark_completed :: "task \<Rightarrow> task" where
  "mark_completed t = t\<lparr>completed := True\<rparr>"

text \<open>\<open>add_tag\<close>: \<open>if tag and tag not in self.tags: self.tags.append(tag)\<close>.\<close>

definition add_tag :: "task \<Rightarrow> pystr \<Rightarrow> task" where
  "add_tag t tag = (if tag \<noteq> [] \<and> tag \<notin> set (tags t) then t\<lparr>tags := tags t @ [tag]\<rparr> else t)"

text \<open>A string is truthy when it is not empty; \<open>None\<close> is falsy.\<close>

fun truthy :: "pystr option \<Rightarrow> bool" where
  "truthy None = False"
| "truthy (Some s) = (s \<noteq> [])"

text \<open>\<open>x or ""\<close> for an optional string.\<close>

definition or_empty :: "pystr option \<Rightarrow> pystr" where
  "or_empty p = (if truthy p then the p else [])"

text \<open>
  \<open>to_dict\<close>: the five keys always, \<open>priority\<close> and \<open>due_date\<close> only when truthy.
\<close>

definition to_dict :: "task \<Rightarrow> json" where
  "to_dict t = JObj (
     [(lit ''id'', JInt (task_id t)),
      (lit ''title'', JStr (title t)),
      (lit ''completed'', JBool (completed t)),
      (lit ''created_at'', JStr (created_at t)),
      (lit ''tags'', JArr (map JStr (tags t)))]
     @ (if truthy (priority t) then [(lit ''priority'', JStr (the (priority t)))] else [])
     @ (if truthy (due_date t) then [(lit ''due_date'', JStr (the (due_date t)))] else []))"

text \<open>
  The typed readings of a JSON value: \<open>None\<close> where the value is of another Python
  type than the field of the record.
\<close>

fun as_str :: "json \<Rightarrow> pystr option" where
  "as_str (JStr s) = Some s"
| "as_str _ = None"

fun as_int :: "json \<Rightarrow> int option" where
  "as_int (JInt n) = Some n"
| "as_int _ = None"

fun as_bool :: "json \<Rightarrow> bool option" where
  "as_bool (JBool b) = Some b"
| "as_bool _ = None"

text \<open>\<open>data.get(key)\<close> for an optional string: a missing key and \<open>null\<close> are \<open>None\<close>.\<close>

fun as_opt_str :: "json option \<Rightarrow> pystr option option" where
  "as_opt_str None = Some None"
| "as_opt_str (Some JNull) = Some None"
| "as_opt_str (Some (JStr s)) = Some (Some s)"
| "as_opt_str (Some _) = None"

fun as_strs :: "json list \<Rightarrow> pystr list option" where
  "as_strs [] = Some []"
| "as_strs (j # js) =
     (case as_str j of None \<Rightarrow> None
      | Some s \<Rightarrow> (case as_strs js of None \<Rightarrow> None | Some ss \<Rightarrow> Some (s # ss)))"

text \<open>\<open>data.get("tags", [])\<close>: a missing key is the empty list.\<close>

fun as_tags :: "json option \<Rightarrow> pystr list option" where
  "as_tags None = Some []"
| "as_tags (Some (JArr js)) = as_strs js"
| "as_tags (Some _) = None"

text \<open>
  \<open>from_dict\<close>. Subscripting anything but a dict with a string raises \<open>TypeError\<close>;
  \<open>data["title"]\<close>, \<open>data["id"]\<close>, \<open>data["completed"]\<close> and \<open>data["created_at"]\<close>
  raise \<open>KeyError\<close> on a missing key, \<open>data.get\<close> never raises. The timestamp that
  the constructor takes from the clock is overwritten by \<open>data["created_at"]\<close>.
\<close>

definition from_dict :: "json \<Rightarrow> task outcome" where
  "from_dict data =
     (case data of
        JObj kvs \<Rightarrow>
          (let d = map_of kvs in
           if d (lit ''title'') = None \<or> d (lit ''id'') = None \<or>
              d (lit ''completed'') = None \<or> d (lit ''created_at'') = None
           then Raise KeyError
           else
             (case (as_str (the (d (lit ''title''))),
                    as_opt_str (d (lit ''priority'')),
                    as_opt_str (d (lit ''due_date'')),
                    as_int (the (d (lit ''id''))),
                    as_bool (the (d (lit ''completed''))),
                    as_str (the (d (lit ''created_at''))),
                    as_tags (d (lit ''tags''))) of
                (Some ttl, Some prio, Some due, Some n, Some c, Some ca, Some tgs) \<Rightarrow>
                  Return \<lparr>task_id = n, title = ttl, completed = c, created_at = ca,
                          priority = prio, due_date = due, tags = tgs\<rparr>
              | _ \<Rightarrow> Unmodelled))
      | _ \<Rightarrow> Raise TypeError)"

section \<open>TaskManager\<close>

record manager =
  tasks :: "task list"
  filename :: pystr

text \<open>\<open>TaskManager.__init__\<close>.\<close>

definition new_manager :: manager where
  "new_manager = \<lparr>tasks = [], filename = lit ''tasks.json''\<rparr>"

text \<open>
  \<open>_generate_id\<close>: 1 for no tasks, else \<open>max(task.id for task in self.tasks) + 1\<close>,
  the maximum being a left-to-right scan.
\<close>

definition generate_id :: "manager \<Rightarrow> int" where
  "generate_id m = (case map task_id (tasks m) of [] \<Rightarrow> 1 | x # xs \<Rightarrow> fold max xs x + 1)"

text \<open>
  \<open>add_task\<close>: the constructor's fields (\<open>now\<close> is the clock's reading, formatted),
  the generated id, the append; it returns the task and the manager.
\<close>

definition add_task :: "pystr \<Rightarrow> manager \<Rightarrow> pystr \<Rightarrow> pystr option \<Rightarrow> pystr option \<Rightarrow> task \<times> manager" where
  "add_task now m ttl prio due =
     (let t = \<lparr>task_id = generate_id m, title = ttl, completed = False, created_at = now,
               priority = prio, due_date = due, tags = []\<rparr>
      in (t, m\<lparr>tasks := tasks m @ [t]\<rparr>))"

text \<open>\<open>delete_task\<close>: deletes the first task with that id, and says whether it found one.\<close>

fun delete_first :: "int \<Rightarrow> task list \<Rightarrow> (task list) option" where
  "delete_first i [] = None"
| "delete_first i (t # ts) =
     (if task_id t = i then Some ts
      else (case delete_first i ts of None \<Rightarrow> None | Some ts' \<Rightarrow> Some (t # ts')))"

definition delete_task :: "manager \<Rightarrow> int \<Rightarrow> bool \<times> manager" where
  "delete_task m i =
     (case delete_first i (tasks m) of
        None \<Rightarrow> (False, m)
      | Some ts \<Rightarrow> (True, m\<lparr>tasks := ts\<rparr>))"

text \<open>
  \<open>search_tasks\<close>. \<open>str.lower\<close> is Python's own (the Unicode case tables): it is the
  parameter \<open>lower\<close>, and what is proved holds for every such function. \<open>py_in k s\<close> is
  \<open>k in s\<close> for strings, the substring test.
\<close>

fun starts_with :: "pystr \<Rightarrow> pystr \<Rightarrow> bool" where
  "starts_with s [] = True"
| "starts_with [] (k # ks) = False"
| "starts_with (c # cs) (k # ks) = (c = k \<and> starts_with cs ks)"

fun py_in :: "pystr \<Rightarrow> pystr \<Rightarrow> bool" where
  "py_in k [] = (k = [])"
| "py_in k (c # cs) = (starts_with (c # cs) k \<or> py_in k cs)"

definition search_tasks :: "(pystr \<Rightarrow> pystr) \<Rightarrow> manager \<Rightarrow> pystr \<Rightarrow> task list" where
  "search_tasks lower m keyword =
     (if keyword = [] then []
      else (let k = lower keyword in filter (\<lambda>t. py_in k (lower (title t))) (tasks m)))"

text \<open>
  \<open>sorted(xs, key=f, reverse=r)\<close>: a stable sort on the keys; with \<open>reverse\<close> the list
  is reversed, sorted and reversed again, so that equal keys keep their order.
\<close>

definition py_sorted :: "('a \<Rightarrow> 'k::linorder) \<Rightarrow> bool \<Rightarrow> 'a list \<Rightarrow> 'a list" where
  "py_sorted f r xs = (if r then rev (sort_key f (rev xs)) else sort_key f xs)"

text \<open>The three Ukrainian priority labels of the source (high, medium, low), as code points.\<close>

definition high_label :: pystr where
  "high_label = [1074, 1080, 1089, 1086, 1082, 1080, 1081]"

definition medium_label :: pystr where
  "medium_label = [1089, 1077, 1088, 1077, 1076, 1085, 1110, 1081]"

definition low_label :: pystr where
  "low_label = [1085, 1080, 1079, 1100, 1082, 1080, 1081]"

text \<open>The dict \<open>priority_order\<close> of \<open>sort_tasks\<close>, and \<open>priority_order.get(p, 0)\<close>.\<close>

definition priority_order :: "(pystr option \<times> int) list" where
  "priority_order = [(Some high_label, 3), (Some medium_label, 2), (Some low_label, 1), (None, 0)]"

definition priority_rank :: "pystr option \<Rightarrow> int" where
  "priority_rank p = (case map_of priority_order p of Some r \<Rightarrow> r | None \<Rightarrow> 0)"

text \<open>The key of the sort by due date: \<open>t.due_date if t.due_date else "9999-99-99"\<close>.\<close>

definition due_key :: "task \<Rightarrow> pystr" where
  "due_key t = (if truthy (due_date t) then the (due_date t) else lit ''9999-99-99'')"

text \<open>\<open>if tasks is None: tasks = self.tasks\<close>.\<close>

definition tasks_or_own :: "manager \<Rightarrow> task list option \<Rightarrow> task list" where
  "tasks_or_own m tasks_arg = (case tasks_arg of None \<Rightarrow> tasks m | Some l \<Rightarrow> l)"

text \<open>\<open>sort_tasks\<close>, one \<open>sorted\<close> for each criterion; any other criterion returns the list.\<close>

definition sort_tasks ::
  "(pystr \<Rightarrow> pystr) \<Rightarrow> manager \<Rightarrow> task list option \<Rightarrow> pystr \<Rightarrow> bool \<Rightarrow> task list" where
  "sort_tasks lower m tasks_arg by reverse =
     (let ts = tasks_or_own m tasks_arg in
      if by = lit ''id'' then py_sorted task_id reverse ts
      else if by = lit ''title'' then py_sorted (\<lambda>t. lower (title t)) reverse ts
      else if by = lit ''priority'' then py_sorted (\<lambda>t. priority_rank (priority t)) reverse ts
      else if by = lit ''due_date'' then py_sorted due_key reverse ts
      else if by = lit ''created_at'' then py_sorted created_at reverse ts
      else ts)"

section \<open>Files\<close>

text \<open>
  A file's text is held as what the library parses it to: JSON text as the value
  \<open>json.load\<close> returns (\<open>json.dump\<close> writes the text of a value, and reading it back
  gives the value); CSV text as the rows that \<open>csv.reader\<close> yields, followed by the
  exception that ends the iteration early, if one does (\<open>csv.Error\<close>, a decoding error
  further down the file); \<open>NotJson e\<close> is a text on which \<open>json.load\<close> raises \<open>e\<close>;
  \<open>Truncated\<close> is what a write that failed has left, a part of the text that it was
  writing. A path is absent, cannot be opened (\<open>Blocked e\<close>: \<open>open\<close> raises \<open>e\<close>), or
  holds a text.
\<close>

datatype content =
    JsonText json
  | CsvText "pystr list list" "py_error option"
  | NotJson py_error
  | Truncated

datatype file_state = Absent | Blocked py_error | Holds content

type_synonym filesystem = "pystr \<Rightarrow> file_state"

fun open_read :: "file_state \<Rightarrow> content outcome" where
  "open_read Absent = Raise FileNotFoundError"
| "open_read (Blocked e) = Raise e"
| "open_read (Holds c) = Return c"

text \<open>\<open>open(path, 'w')\<close> creates an absent file and truncates one that exists.\<close>

fun open_write :: "file_state \<Rightarrow> unit outcome" where
  "open_write (Blocked e) = Raise e"
| "open_write _ = Return ()"

text \<open>\<open>open(path, 'r')\<close> followed by \<open>json.load(file)\<close>.\<close>

definition read_json :: "file_state \<Rightarrow> json outcome" where
  "read_json f =
     (case open_read f of
        Raise e \<Rightarrow> Raise e
      | Unmodelled \<Rightarrow> Unmodelled
      | Return (JsonText v) \<Rightarrow> Return v
      | Return (NotJson e) \<Rightarrow> Raise e
      | Return (CsvText rows stop) \<Rightarrow> Unmodelled
      | Return Truncated \<Rightarrow> Unmodelled)"

text \<open>
  \<open>csv.reader\<close> refuses a field of more than 131072 characters (its field size limit)
  with \<open>csv.Error\<close>: it yields the rows before the first row that has such a field.
\<close>

definition field_limit :: nat where
  "field_limit = 131072"

definition readable_row :: "pystr list \<Rightarrow> bool" where
  "readable_row row = list_all (\<lambda>field. length field \<le> field_limit) row"

text \<open>\<open>open(path, 'r', newline='')\<close> followed by \<open>csv.reader(file)\<close>, which is lazy.\<close>

definition read_csv :: "file_state \<Rightarrow> (pystr list list \<times> py_error option) outcome" where
  "read_csv f =
     (case open_read f of
        Raise e \<Rightarrow> Raise e
      | Unmodelled \<Rightarrow> Unmodelled
      | Return (CsvText rows stop) \<Rightarrow>
          Return (takeWhile readable_row rows,
                  if list_all readable_row rows then stop else Some CsvError)
      | Return (JsonText v) \<Rightarrow> Unmodelled
      | Return (NotJson e) \<Rightarrow> Unmodelled
      | Return Truncated \<Rightarrow> Unmodelled)"

text \<open>
  \<open>for task_data in data\<close>: a list gives its elements, a dict its keys, a string its
  characters; \<open>None\<close>, a bool and a number are not iterable.
\<close>

fun py_iter :: "json \<Rightarrow> json list outcome" where
  "py_iter (JArr js) = Return js"
| "py_iter (JObj kvs) = Return (map (\<lambda>kv. JStr (fst kv)) kvs)"
| "py_iter (JStr s) = Return (map (\<lambda>c. JStr [c]) s)"
| "py_iter _ = Raise TypeError"

text \<open>
  \<open>[Task.from_dict(task_data) for task_data in data]\<close>: the first element on which
  \<open>from_dict\<close> raises ends the comprehension with that exception, whatever the elements
  before it were.
\<close>

fun from_dicts :: "json list \<Rightarrow> task list outcome" where
  "from_dicts [] = Return []"
| "from_dicts (d # ds) =
     (case from_dict d of
        Raise e \<Rightarrow> Raise e
      | r \<Rightarrow>
          (case from_dicts ds of
             Raise e \<Rightarrow> Raise e
           | Unmodelled \<Rightarrow> Unmodelled
           | Return ts \<Rightarrow> (case r of Return t \<Rightarrow> Return (t # ts) | _ \<Rightarrow> Unmodelled)))"

definition read_tasks :: "file_state \<Rightarrow> task list outcome" where
  "read_tasks f =
     (case read_json f of
        Raise e \<Rightarrow> Raise e
      | Unmodelled \<Rightarrow> Unmodelled
      | Return data \<Rightarrow>
          (case py_iter data of
             Raise e \<Rightarrow> Raise e
           | Unmodelled \<Rightarrow> Unmodelled
           | Return ds \<Rightarrow> from_dicts ds))"

section \<open>Persistence: load, save, export, import\<close>

text \<open>
  The state these methods act on: the manager and the file system. \<open>write_fault w p\<close>
  is the error of the device, if any, that a write to the path \<open>p\<close> meets after the file
  was opened (a full disk, a lost connection).
\<close>

record world =
  mgr :: manager
  files :: filesystem
  write_fault :: "pystr \<Rightarrow> py_error option"

text \<open>
  The files are written as UTF-8: a string with a surrogate code point cannot be encoded,
  and writing it raises \<open>UnicodeEncodeError\<close>. The strings of a task that the JSON
  dump and the CSV rows write are its title, its timestamp, its priority, its due date
  and its tags.
\<close>

definition surrogate :: "nat \<Rightarrow> bool" where
  "surrogate c \<longleftrightarrow> 55296 \<le> c \<and> c \<le> 57343"

definition encodable :: "pystr \<Rightarrow> bool" where
  "encodable s = list_all (\<lambda>c. \<not> surrogate c) s"

definition task_encodable :: "task \<Rightarrow> bool" where
  "task_encodable t \<longleftrightarrow>
     encodable (title t) \<and> encodable (created_at t) \<and> encodable (or_empty (priority t)) \<and>
     encodable (or_empty (due_date t)) \<and> list_all encodable (tags t)"

text \<open>
  \<open>load_tasks\<close>: \<open>self.tasks\<close> is assigned once the whole list is built; only
  \<open>FileNotFoundError\<close> is caught.
\<close>

definition load_body :: "world \<Rightarrow> bool outcome \<times> world" where
  "load_body w =
     (case read_tasks (files w (filename (mgr w))) of
        Raise e \<Rightarrow> (Raise e, w)
      | Unmodelled \<Rightarrow> (Unmodelled, w)
      | Return ts \<Rightarrow> (Return True, w\<lparr>mgr := (mgr w)\<lparr>tasks := ts\<rparr>\<rparr>))"

definition load_tasks :: "world \<Rightarrow> bool outcome \<times> world" where
  "load_tasks w =
     (case load_body w of
        (Raise FileNotFoundError, w') \<Rightarrow> (Return False, w')
      | r \<Rightarrow> r)"

text \<open>
  \<open>json.dump\<close> of the records to a path opened for writing. When \<open>open\<close> raises,
  nothing is changed. Once the file is open it exists and is empty; a fault of the
  device, or a string that cannot be encoded, ends the dump with an exception and leaves
  the file cut short.
\<close>

definition write_json :: "world \<Rightarrow> pystr \<Rightarrow> unit outcome \<times> world" where
  "write_json w path =
     (case open_write (files w path) of
        Raise e \<Rightarrow> (Raise e, w)
      | Unmodelled \<Rightarrow> (Unmodelled, w)
      | Return u \<Rightarrow>
          (case write_fault w path of
             Some e \<Rightarrow> (Raise e, w\<lparr>files := (files w)(path := Holds Truncated)\<rparr>)
           | None \<Rightarrow>
               if list_all task_encodable (tasks (mgr w)) then
                 (Return (),
                  w\<lparr>files := (files w)(path := Holds (JsonText (JArr (map to_dict (tasks (mgr w))))))\<rparr>)
               else (Raise UnicodeEncodeError, w\<lparr>files := (files w)(path := Holds Truncated)\<rparr>)))"

text \<open>\<open>save_tasks\<close> has no \<open>try\<close>: it returns \<open>None\<close> or raises.\<close>

definition save_tasks :: "world \<Rightarrow> unit outcome \<times> world" where
  "save_tasks w = write_json w (filename (mgr w))"

text \<open>
  The console. Every message of these methods goes through \<open>print\<close>, which raises when
  the console refuses the message (a closed output, an encoding that has no Cyrillic
  letters): \<open>console\<close> is \<open>None\<close> when the messages are printed and \<open>Some e\<close> when
  \<open>print\<close> raises \<open>e\<close>. \<open>then_print console b r\<close> is a step \<open>r\<close> of the body followed
  by \<open>print(...)\<close> and \<open>return b\<close>.
\<close>

definition then_print ::
  "py_error option \<Rightarrow> bool \<Rightarrow> unit outcome \<times> world \<Rightarrow> bool outcome \<times> world" where
  "then_print console b r =
     (case r of
        (Return u, w) \<Rightarrow> (case console of None \<Rightarrow> (Return b, w) | Some e \<Rightarrow> (Raise e, w))
      | (Raise e, w) \<Rightarrow> (Raise e, w)
      | (Unmodelled, w) \<Rightarrow> (Unmodelled, w))"

text \<open>
  \<open>except Exception as e: print(...); return False\<close>: an exception of the body becomes
  the value \<open>False\<close> once the message is printed, and an exception of that \<open>print\<close>
  leaves the method; the state is the one the body had reached.
\<close>

definition except_Exception ::
  "py_error option \<Rightarrow> bool outcome \<times> world \<Rightarrow> bool outcome \<times> world" where
  "except_Exception console r =
     (case r of
        (Raise e, w) \<Rightarrow> (case console of None \<Rightarrow> (Return False, w) | Some e' \<Rightarrow> (Raise e', w))
      | _ \<Rightarrow> r)"

text \<open>
  The CSV export: the header, then a row for each task. \<open>csv.writer\<close> writes the id as
  \<open>str(id)\<close>, its decimal digits.
\<close>

function str_nat :: "nat \<Rightarrow> pystr" where
  "str_nat n = (if n < 10 then [48 + n] else str_nat (n div 10) @ [48 + n mod 10])"
  by pat_completeness auto
termination
  by (relation "measure id") auto

declare str_nat.simps [simp del]

definition str_int :: "int \<Rightarrow> pystr" where
  "str_int i = (if i < 0 then 45 # str_nat (nat (- i)) else str_nat (nat i))"

text \<open>\<open>",".join(xs)\<close> and \<open>s.split(",")\<close>; 44 is the comma.\<close>

fun join_comma :: "pystr list \<Rightarrow> pystr" where
  "join_comma [] = []"
| "join_comma [s] = s"
| "join_comma (s # s' # ss) = s @ 44 # join_comma (s' # ss)"

fun split_comma :: "pystr \<Rightarrow> pystr list" where
  "split_comma [] = [[]]"
| "split_comma (c # cs) =
     (if c = 44 then [] # split_comma cs
      else (case split_comma cs of [] \<Rightarrow> [[c]] | p # ps \<Rightarrow> (c # p) # ps))"

text \<open>
  The seven Ukrainian column titles of the header row (ID, title, status, priority, due
  date, created, tags) and the two status labels (done, active), as code points.
\<close>

definition csv_header :: "pystr list" where
  "csv_header =
     [[73, 68],
      [1053, 1072, 1079, 1074, 1072],
      [1057, 1090, 1072, 1090, 1091, 1089],
      [1055, 1088, 1110, 1086, 1088, 1080, 1090, 1077, 1090],
      [1058, 1077, 1088, 1084, 1110, 1085, 32, 1074, 1080, 1082, 1086, 1085, 1072, 1085, 1085, 1103],
      [1057, 1090, 1074, 1086, 1088, 1077, 1085, 1086],
      [1058, 1077, 1075, 1080]]"

definition done_label :: pystr where
  "done_label = [1042, 1080, 1082, 1086, 1085, 1072, 1085, 1086]"

definition active_label :: pystr where
  "active_label = [1040, 1082, 1090, 1080, 1074, 1085, 1086]"

definition csv_row :: "task \<Rightarrow> pystr list" where
  "csv_row t =
     [str_int (task_id t),
      title t,
      (if completed t then done_label else active_label),
      or_empty (priority t),
      or_empty (due_date t),
      created_at t,
      join_comma (tags t)]"

text \<open>
  The CSV export writes the header and then one row at a time. A row with a string that
  cannot be encoded ends it with \<open>UnicodeEncodeError\<close>, the rows before it written; a
  fault of the device leaves the file cut short.
\<close>

definition write_csv :: "world \<Rightarrow> pystr \<Rightarrow> unit outcome \<times> world" where
  "write_csv w path =
     (case open_write (files w path) of
        Raise e \<Rightarrow> (Raise e, w)
      | Unmodelled \<Rightarrow> (Unmodelled, w)
      | Return u \<Rightarrow>
          (case write_fault w path of
             Some e \<Rightarrow> (Raise e, w\<lparr>files := (files w)(path := Holds Truncated)\<rparr>)
           | None \<Rightarrow>
               if list_all task_encodable (tasks (mgr w)) then
                 (Return (),
                  w\<lparr>files := (files w)(path :=
                      Holds (CsvText (csv_header # map csv_row (tasks (mgr w))) None))\<rparr>)
               else
                 (Raise UnicodeEncodeError,
                  w\<lparr>files := (files w)(path :=
                      Holds (CsvText (csv_header # map csv_row (takeWhile task_encodable (tasks (mgr w))))
                               None))\<rparr>)))"

text \<open>
  \<open>export_tasks\<close>: the body of the \<open>try\<close>, then the handler. The body writes the
  file, prints that it did and returns \<open>True\<close>; for any other format it prints that the
  format is not supported and returns \<open>False\<close>.
\<close>

definition export_body ::
  "py_error option \<Rightarrow> (pystr \<Rightarrow> pystr) \<Rightarrow> world \<Rightarrow> pystr \<Rightarrow> pystr \<Rightarrow> bool outcome \<times> world" where
  "export_body console lower w path format =
     (if lower format = lit ''json'' then then_print console True (write_json w path)
      else if lower format = lit ''csv'' then then_print console True (write_csv w path)
      else then_print console False (Return (), w))"

definition export_tasks_on ::
  "py_error option \<Rightarrow> (pystr \<Rightarrow> pystr) \<Rightarrow> world \<Rightarrow> pystr \<Rightarrow> pystr \<Rightarrow> bool outcome \<times> world" where
  "export_tasks_on console lower w path format =
     except_Exception console (export_body console lower w path format)"

text \<open>\<open>export_tasks\<close> on a console that prints every message.\<close>

definition export_tasks :: "(pystr \<Rightarrow> pystr) \<Rightarrow> world \<Rightarrow> pystr \<Rightarrow> pystr \<Rightarrow> bool outcome \<times> world" where
  "export_tasks lower w path format = export_tasks_on None lower w path format"

text \<open>
  The JSON import's loop \<open>for task in imported_tasks: task.id = next_id; next_id += 1\<close>.
\<close>

fun assign_ids :: "int \<Rightarrow> task list \<Rightarrow> task list" where
  "assign_ids n [] = []"
| "assign_ids n (t # ts) = t\<lparr>task_id := n\<rparr> # assign_ids (n + 1) ts"

text \<open>
  \<open>str.strip()\<close> removes the white space at both ends: the code points for which
  \<open>str.isspace\<close> holds.
\<close>

definition is_space :: "nat \<Rightarrow> bool" where
  "is_space c \<longleftrightarrow>
     (9 \<le> c \<and> c \<le> 13) \<or> (28 \<le> c \<and> c \<le> 32) \<or> c = 133 \<or> c = 160 \<or> c = 5760 \<or>
     (8192 \<le> c \<and> c \<le> 8202) \<or> c = 8232 \<or> c = 8233 \<or> c = 8239 \<or> c = 8287 \<or> c = 12288"

definition strip :: "pystr \<Rightarrow> pystr" where
  "strip s = rev (dropWhile is_space (rev (dropWhile is_space s)))"

text \<open>
  One data row of the CSV import, of at least 6 columns. The task that \<open>add_task\<close>
  returns is the object it appended: completing and tagging it changes the last
  element of the manager's list.
\<close>

definition import_row :: "pystr \<Rightarrow> manager \<Rightarrow> pystr list \<Rightarrow> manager" where
  "import_row now m row =
     (let ttl = row ! 1;
          done = (row ! 2 = done_label);
          prio = (if row ! 3 \<noteq> [] then Some (row ! 3) else None);
          due = (if row ! 4 \<noteq> [] then Some (row ! 4) else None);
          tgs = (if length row > 6 \<and> row ! 6 \<noteq> [] then split_comma (row ! 6) else []);
          (t, m1) = add_task now m ttl prio due;
          t1 = (if done then mark_completed t else t);
          t2 = foldl add_tag t1 (map strip tgs)
      in m1\<lparr>tasks := (tasks m1)[length (tasks m1) - 1 := t2]\<rparr>)"

text \<open>
  \<open>for row in reader\<close>: rows of fewer than 6 columns are skipped. \<open>clock k\<close> is the
  clock's reading when the \<open>k\<close>-th task of the call is constructed.
\<close>

fun import_rows :: "(nat \<Rightarrow> pystr) \<Rightarrow> nat \<Rightarrow> manager \<Rightarrow> pystr list list \<Rightarrow> manager" where
  "import_rows clock k m [] = m"
| "import_rows clock k m (row # rows) =
     (if length row \<ge> 6 then import_rows clock (Suc k) (import_row (clock k) m row) rows
      else import_rows clock k m rows)"

text \<open>
  \<open>import_tasks\<close>: the body of the \<open>try\<close>, then the handler. In the CSV branch
  \<open>next(reader)\<close> raises \<open>StopIteration\<close> on a file with no row, and an exception of
  the reader ends the loop after the rows read so far have been added. After the tasks
  are added the body prints that they were and returns \<open>True\<close>; for any other format it
  prints that the format is not supported and returns \<open>False\<close>.
\<close>

definition import_body ::
  "py_error option \<Rightarrow> (pystr \<Rightarrow> pystr) \<Rightarrow> (nat \<Rightarrow> pystr) \<Rightarrow> world \<Rightarrow> pystr \<Rightarrow> pystr \<Rightarrow>
   bool outcome \<times> world" where
  "import_body console lower clock w path format =
     (if lower format = lit ''json'' then
        then_print console True
          (case read_tasks (files w path) of
             Raise e \<Rightarrow> (Raise e, w)
           | Unmodelled \<Rightarrow> (Unmodelled, w)
           | Return imported \<Rightarrow>
               (let next_id = generate_id (mgr w);
                    renumbered = assign_ids next_id imported
                in (Return (), w\<lparr>mgr := (mgr w)\<lparr>tasks := tasks (mgr w) @ renumbered\<rparr>\<rparr>)))
      else if lower format = lit ''csv'' then
        then_print console True
          (case read_csv (files w path) of
             Raise e \<Rightarrow> (Raise e, w)
           | Unmodelled \<Rightarrow> (Unmodelled, w)
           | Return (rows, stop) \<Rightarrow>
               (case rows of
                  [] \<Rightarrow> (Raise (case stop of None \<Rightarrow> StopIteration | Some e \<Rightarrow> e), w)
                | headers # data_rows \<Rightarrow>
                    (let w' = w\<lparr>mgr := import_rows clock 0 (mgr w) data_rows\<rparr>
                     in (case stop of None \<Rightarrow> (Return (), w') | Some e \<Rightarrow> (Raise e, w')))))
      else then_print console False (Return (), w))"

definition import_tasks_on ::
  "py_error option \<Rightarrow> (pystr \<Rightarrow> pystr) \<Rightarrow> (nat \<Rightarrow> pystr) \<Rightarrow> world \<Rightarrow> pystr \<Rightarrow> pystr \<Rightarrow>
   bool outcome \<times> world" where
  "import_tasks_on console lower clock w path format =
     except_Exception console (import_body console lower clock w path format)"

text \<open>\<open>import_tasks\<close> on a console that prints every message.\<close>

definition import_tasks ::
  "(pystr \<Rightarrow> pystr) \<Rightarrow> (nat \<Rightarrow> pystr) \<Rightarrow> world \<Rightarrow> pystr \<Rightarrow> pystr \<Rightarrow> bool outcome \<times> world" where
  "import_tasks lower clock w path format = import_tasks_on None lower clock w path format"

text \<open>
  \<open>str.lower\<close>. Python lowers a string character by character with the tables of the
  Unicode database, which are parameters here: the lower-case mapping of a code point
  (one code point or several), and the properties \<open>Cased\<close> and \<open>Case_Ignorable\<close>. The
  one character that is lowered by its place is the capital sigma (code point 931): it
  becomes the final sigma (962) when a cased character stands before it, characters that
  case ignores apart, and none stands after it; otherwise the small sigma (963).
  \<open>lower_from U front rest\<close> lowers \<open>rest\<close>, \<open>front\<close> being the characters in front
  of it, the nearest first.
\<close>

record case_tables =
  to_lower :: "nat \<Rightarrow> pystr"
  cased :: "nat \<Rightarrow> bool"
  case_ignorable :: "nat \<Rightarrow> bool"

definition final_sigma :: "case_tables \<Rightarrow> pystr \<Rightarrow> pystr \<Rightarrow> bool" where
  "final_sigma U front rest \<longleftrightarrow>
     (case dropWhile (case_ignorable U) front of [] \<Rightarrow> False | p # ps \<Rightarrow> cased U p) \<and>
     (case dropWhile (case_ignorable U) rest of [] \<Rightarrow> True | n # ns \<Rightarrow> \<not> cased U n)"

fun lower_from :: "case_tables \<Rightarrow> pystr \<Rightarrow> pystr \<Rightarrow> pystr" where
  "lower_from U front [] = []"
| "lower_from U front (c # rest) =
     (if c = 931 then [if final_sigma U front rest then 962 else 963] else to_lower U c)
     @ lower_from U (c # front) rest"

definition py_lower :: "case_tables \<Rightarrow> pystr \<Rightarrow> pystr" where
  "py_lower U s = lower_from U [] s"

text \<open>
  The tables for the letters of the ASCII, Greek and Cyrillic alphabets and for the
  capital I with a dot above (code point 304, which lowers to the two code points 105
  and 775), as the Unicode database has them, to run the definitions on concrete inputs;
  every other code point is taken as a character without case.
\<close>

definition letter_tables :: case_tables where
  "letter_tables =
     \<lparr>to_lower = (\<lambda>c. if (65 \<le> c \<and> c \<le> 90) \<or> (913 \<le> c \<and> c \<le> 929) \<or> (931 \<le> c \<and> c \<le> 939)
                          \<or> (1040 \<le> c \<and> c \<le> 1071) then [c + 32]
                       else if 1024 \<le> c \<and> c \<le> 1039 then [c + 80]
                       else if c = 304 then [105, 775] else [c]),
      cased = (\<lambda>c. (65 \<le> c \<and> c \<le> 90) \<or> (97 \<le> c \<and> c \<le> 122) \<or> c = 304 \<or> (913 \<le> c \<and> c \<le> 929)
                    \<or> (931 \<le> c \<and> c \<le> 939) \<or> (945 \<le> c \<and> c \<le> 971) \<or> (1024 \<le> c \<and> c \<le> 1119)),
      case_ignorable = (\<lambda>c. c = 39 \<or> c = 46 \<or> c = 58 \<or> c = 94 \<or> c = 96)\<rparr>"

text \<open>A lower-casing of ASCII, to run the definitions on concrete inputs.\<close>

definition ascii_lower :: "pystr \<Rightarrow> pystr" where
  "ascii_lower s = map (\<lambda>c. if 65 \<le> c \<and> c \<le> 90 then c + 32 else c) s"

section \<open>Notions of the specification and sample inputs\<close>

text \<open>
  A blank tag, in the words of the specification: a tag that is not empty and is white
  space throughout.
\<close>

definition blank :: "pystr \<Rightarrow> bool" where
  "blank s \<longleftrightarrow> s \<noteq> [] \<and> list_all is_space s"

text \<open>A task as \<open>add_task\<close> makes it, with the given id and title.\<close>

definition plain_task :: "int \<Rightarrow> pystr \<Rightarrow> task" where
  "plain_task n ttl =
     \<lparr>task_id = n, title = ttl, completed = False, created_at = lit ''2024-05-01 09:00:00'',
      priority = None, due_date = None, tags = []\<rparr>"

text \<open>Tasks for the sorts: with a due date, and with a priority.\<close>

definition due_task :: "int \<Rightarrow> pystr option \<Rightarrow> task" where
  "due_task n due = (plain_task n (lit ''Pay bills''))\<lparr>due_date := due\<rparr>"

definition prio_task :: "int \<Rightarrow> pystr option \<Rightarrow> task" where
  "prio_task n prio = (plain_task n (lit ''Pay bills''))\<lparr>priority := prio\<rparr>"

text \<open>A task whose priority is none of the three labels: absent or not recognised.\<close>

definition unranked :: "task \<Rightarrow> bool" where
  "unranked t \<longleftrightarrow> priority t \<noteq> Some high_label \<and> priority t \<noteq> Some medium_label \<and> priority t \<noteq> Some low_label"

text \<open>
  The task that the CSV import makes of a data row of at least 6 columns, with the id
  \<open>n\<close> and the clock's reading \<open>now\<close>; and the tasks it makes of a list of rows, the
  \<open>k\<close>-th task of the call being the next one and \<open>n\<close> the next id.
\<close>

definition row_task :: "pystr \<Rightarrow> int \<Rightarrow> pystr list \<Rightarrow> task" where
  "row_task now n row =
     foldl add_tag
       \<lparr>task_id = n, title = row ! 1, completed = (row ! 2 = done_label), created_at = now,
        priority = (if row ! 3 \<noteq> [] then Some (row ! 3) else None),
        due_date = (if row ! 4 \<noteq> [] then Some (row ! 4) else None),
        tags = []\<rparr>
       (map strip (if length row > 6 \<and> row ! 6 \<noteq> [] then split_comma (row ! 6) else []))"

fun rows_tasks :: "(nat \<Rightarrow> pystr) \<Rightarrow> nat \<Rightarrow> int \<Rightarrow> pystr list list \<Rightarrow> task list" where
  "rows_tasks clock k n [] = []"
| "rows_tasks clock k n (row # rows) =
     (if length row \<ge> 6 then row_task (clock k) n row # rows_tasks clock (Suc k) (n + 1) rows
      else rows_tasks clock k n rows)"

text \<open>
  Worlds for the persistence: a manager, one state for every path, and a device without
  faults.
\<close>

definition world_of :: "manager \<Rightarrow> file_state \<Rightarrow> world" where
  "world_of m f = \<lparr>mgr = m, files = (\<lambda>p. f), write_fault = (\<lambda>p. None)\<rparr>"

text \<open>A CSV data row with the given title, as the export writes it for a task without
  priority, due date and tags.\<close>

definition sample_row :: "pystr \<Rightarrow> pystr list" where
  "sample_row ttl = [lit ''1'', ttl, active_label, [], [], lit ''2024-05-01 09:00:00'', []]"

text \<open>
  Tasks that the records and the CSV rows can carry without loss. An optional field
  that is the empty string is written like an absent one. A tag list is read back from
  a CSV row as it was when it has no duplicate and each tag is not empty, has no comma
  and no white space at its ends.
\<close>

definition no_empty_option :: "task \<Rightarrow> bool" where
  "no_empty_option t \<longleftrightarrow> priority t \<noteq> Some [] \<and> due_date t \<noteq> Some []"

definition plain_tags :: "task \<Rightarrow> bool" where
  "plain_tags t \<longleftrightarrow>
     distinct (tags t) \<and> list_all (\<lambda>tag. tag \<noteq> [] \<and> 44 \<notin> set tag \<and> strip tag = tag) (tags t)"

text \<open>
  A row without the character NUL (code point 0), which older versions of the CSV reader
  refuse.
\<close>

definition nul_free :: "pystr list \<Rightarrow> bool" where
  "nul_free row \<longleftrightarrow> list_all (\<lambda>field. 0 \<notin> set field) row"

text \<open>A completed task with a priority, a due date and two tags.\<close>

definition full_task :: task where
  "full_task =
     \<lparr>task_id = 3, title = lit ''Buy milk'', completed = True, created_at = lit ''2024-05-01 09:00:00'',
      priority = Some high_label, due_date = Some (lit ''2099-01-01''),
      tags = [lit ''home'', lit ''shop'']\<rparr>"

text \<open>
  To contain a keyword as a case-insensitive substring, in the words of the
  specification: some part of the title, taken by itself, is the keyword up to case.
\<close>

definition contains_ignoring_case :: "case_tables \<Rightarrow> pystr \<Rightarrow> pystr \<Rightarrow> bool" where
  "contains_ignoring_case U s k \<longleftrightarrow> (\<exists>pre mid suf. s = pre @ mid @ suf \<and> py_lower U mid = py_lower U k)"

section \<open>Properties of the identifiers\<close>

lemma fold_max_Max: "fold max xs (x::int) = Max (set (x # xs))"
  by (rule Max.set_eq_fold[symmetric])

lemma generate_id_eq:
  "generate_id m = (if tasks m = [] then 1 else Max (task_id ` set (tasks m)) + 1)"
proof (cases "tasks m")
  case Nil
  then show ?thesis by (simp add: generate_id_def)
next
  case (Cons t ts)
  have "fold max (map task_id ts) (task_id t) = Max (set (task_id t # map task_id ts))"
    by (rule fold_max_Max)
  then show ?thesis using Cons by (simp add: generate_id_def)
qed

lemma generate_id_gt: "t \<in> set (tasks m) \<Longrightarrow> task_id t < generate_id m"
proof -
  assume a: "t \<in> set (tasks m)"
  then have ne: "tasks m \<noteq> []" by auto
  have "task_id t \<le> Max (task_id ` set (tasks m))" using a by (intro Max_ge) auto
  then show ?thesis using ne by (simp add: generate_id_eq)
qed

lemma add_task_fst: "task_id (fst (add_task now m ttl prio due)) = generate_id m"
  by (simp add: add_task_def Let_def)

lemma add_task_snd:
  "snd (add_task now m ttl prio due) = m\<lparr>tasks := tasks m @ [fst (add_task now m ttl prio due)]\<rparr>"
  by (simp add: add_task_def Let_def)

text \<open>
  Claim C1, as amended. \<open>add_task\<close> gives the new task the id 1 in an empty collection
  and the greatest id of the collection plus 1 otherwise, and appends the task. The new
  id is therefore greater than every id of the collection, and the id of a deleted task
  is not given again while a task with a higher id remains.
\<close>

theorem add_task_assigns_next_id:
  "task_id (fst (add_task now m ttl prio due)) =
     (if tasks m = [] then 1 else Max (task_id ` set (tasks m)) + 1)
   \<and> snd (add_task now m ttl prio due) = m\<lparr>tasks := tasks m @ [fst (add_task now m ttl prio due)]\<rparr>
   \<and> (\<forall>t \<in> set (tasks m). task_id t < task_id (fst (add_task now m ttl prio due)))
   \<and> (\<forall>i m'. delete_task m i = (True, m') \<and> (\<exists>t \<in> set (tasks m'). i < task_id t)
         \<longrightarrow> task_id (fst (add_task now m' ttl prio due)) \<noteq> i)"
proof (intro conjI allI impI ballI)
  show "task_id (fst (add_task now m ttl prio due)) =
     (if tasks m = [] then 1 else Max (task_id ` set (tasks m)) + 1)"
    by (simp only: add_task_fst generate_id_eq)
next
  show "snd (add_task now m ttl prio due) = m\<lparr>tasks := tasks m @ [fst (add_task now m ttl prio due)]\<rparr>"
    by (rule add_task_snd)
next
  fix t assume "t \<in> set (tasks m)"
  then show "task_id t < task_id (fst (add_task now m ttl prio due))"
    by (simp only: add_task_fst generate_id_gt)
next
  fix i m'
  assume "delete_task m i = (True, m') \<and> (\<exists>t \<in> set (tasks m'). i < task_id t)"
  then obtain t where "t \<in> set (tasks m')" "i < task_id t" by blast
  then have "i < generate_id m'" using generate_id_gt[of t m'] by simp
  then show "task_id (fst (add_task now m' ttl prio due)) \<noteq> i"
    by (simp add: add_task_fst)
qed

text \<open>
  The scenario of the specification: with tasks 1 and 2, deleting task 1 leaves task 2,
  and the next task gets the id 3; in an empty collection the next task gets the id 1.
\<close>

theorem add_task_assigns_next_id_witness:
  "delete_task (new_manager\<lparr>tasks := [plain_task 1 (lit ''Buy milk''), plain_task 2 (lit ''Clean'')]\<rparr>) 1
     = (True, new_manager\<lparr>tasks := [plain_task 2 (lit ''Clean'')]\<rparr>)
   \<and> task_id (fst (add_task (lit ''2024-05-02 09:00:00'')
        (new_manager\<lparr>tasks := [plain_task 2 (lit ''Clean'')]\<rparr>) (lit ''Pay bills'') None None)) = 3
   \<and> task_id (fst (add_task (lit ''2024-05-02 09:00:00'')
        (new_manager\<lparr>tasks := [plain_task 2 (lit ''Clean'')]\<rparr>) (lit ''Pay bills'') None None)) \<noteq> 1
   \<and> task_id (fst (add_task (lit ''2024-05-02 09:00:00'') new_manager (lit ''Buy milk'') None None)) = 1"
proof -
  let ?m2 = "new_manager\<lparr>tasks := [plain_task 1 (lit ''Buy milk''), plain_task 2 (lit ''Clean'')]\<rparr>"
  let ?m3 = "new_manager\<lparr>tasks := [plain_task 2 (lit ''Clean'')]\<rparr>"
  have d: "delete_task ?m2 1 = (True, ?m3)"
    by (simp add: delete_task_def new_manager_def plain_task_def)
  have h: "delete_task ?m2 1 = (True, ?m3) \<and> (\<exists>t\<in>set (tasks ?m3). 1 < task_id t)"
    using d by (simp add: plain_task_def)
  have fresh: "task_id (fst (add_task (lit ''2024-05-02 09:00:00'') ?m3 (lit ''Pay bills'') None None)) \<noteq> 1"
    using h add_task_assigns_next_id [of "lit ''2024-05-02 09:00:00''" ?m2 "lit ''Pay bills''" None None]
    by blast
  show ?thesis
    using d fresh
      add_task_assigns_next_id [of "lit ''2024-05-02 09:00:00''" ?m3 "lit ''Pay bills''" None None]
      add_task_assigns_next_id [of "lit ''2024-05-02 09:00:00''" new_manager "lit ''Buy milk''" None None]
    by (simp add: new_manager_def plain_task_def)
qed

text \<open>
  Claim C1 as stated fails: ids are given again after a deletion while a task remains.
  Two tasks get the ids 1 and 2; task 2 is deleted, task 1 remains, and the next task
  gets the id 2 again.
\<close>

theorem id_reused_after_deleting_highest:
  "task_id (fst (add_task (lit ''2024-05-01 09:00:00'') new_manager (lit ''Buy milk'') None None)) = 1
   \<and> task_id (fst (add_task (lit ''2024-05-01 09:00:00'')
        (new_manager\<lparr>tasks := [plain_task 1 (lit ''Buy milk'')]\<rparr>) (lit ''Clean'') None None)) = 2
   \<and> delete_task (new_manager\<lparr>tasks := [plain_task 1 (lit ''Buy milk''), plain_task 2 (lit ''Clean'')]\<rparr>) 2
     = (True, new_manager\<lparr>tasks := [plain_task 1 (lit ''Buy milk'')]\<rparr>)
   \<and> tasks (new_manager\<lparr>tasks := [plain_task 1 (lit ''Buy milk'')]\<rparr>) \<noteq> []
   \<and> task_id (fst (add_task (lit ''2024-05-02 09:00:00'')
        (new_manager\<lparr>tasks := [plain_task 1 (lit ''Buy milk'')]\<rparr>) (lit ''Pay bills'') None None)) = 2"
  by (simp add: add_task_def generate_id_def delete_task_def new_manager_def plain_task_def Let_def)

section \<open>Properties of tags\<close>

lemma count_list_distinct_member: "distinct xs \<Longrightarrow> x \<in> set xs \<Longrightarrow> count_list xs x = 1"
  by (induction xs) (auto simp: count_list_0_iff)

text \<open>
  Claim C8, as amended. \<open>add_tag\<close> appends the tag unless it is already present or is
  the empty string, and changes nothing else; adding the same tag a second time changes
  nothing; a tag list without duplicates stays without duplicates, and then holds a tag
  that is not empty exactly once after it was added twice.
\<close>

theorem add_tag_appends_once:
  "add_tag t tag = t\<lparr>tags := (if tag = [] \<or> tag \<in> set (tags t) then tags t else tags t @ [tag])\<rparr>
   \<and> add_tag (add_tag t tag) tag = add_tag t tag
   \<and> (distinct (tags t) \<longrightarrow> distinct (tags (add_tag t tag)))
   \<and> (tag \<noteq> [] \<and> distinct (tags t) \<longrightarrow> count_list (tags (add_tag (add_tag t tag) tag)) tag = 1)"
proof (intro conjI impI)
  show "add_tag t tag = t\<lparr>tags := (if tag = [] \<or> tag \<in> set (tags t) then tags t else tags t @ [tag])\<rparr>"
    by (simp add: add_tag_def)
  show idem: "add_tag (add_tag t tag) tag = add_tag t tag"
    by (simp add: add_tag_def)
  show "distinct (tags (add_tag t tag))" if "distinct (tags t)"
    using that by (simp add: add_tag_def)
  show "count_list (tags (add_tag (add_tag t tag) tag)) tag = 1" if h: "tag \<noteq> [] \<and> distinct (tags t)"
  proof -
    have d: "distinct (tags (add_tag t tag))" using h by (simp add: add_tag_def)
    have "tag \<in> set (tags (add_tag t tag))" using h by (simp add: add_tag_def)
    then have "count_list (tags (add_tag t tag)) tag = 1"
      using d by (simp add: count_list_distinct_member)
    then show ?thesis by (simp only: idem)
  qed
qed

theorem add_tag_appends_once_witness:
  "distinct (tags ((plain_task 1 (lit ''Buy milk''))\<lparr>tags := [lit ''home'']\<rparr>))
   \<and> tags (add_tag (add_tag ((plain_task 1 (lit ''Buy milk''))\<lparr>tags := [lit ''home'']\<rparr>) (lit ''work'')) (lit ''work''))
       = [lit ''home'', lit ''work'']
   \<and> count_list (tags (add_tag (add_tag ((plain_task 1 (lit ''Buy milk''))\<lparr>tags := [lit ''home'']\<rparr>)
         (lit ''work'')) (lit ''work''))) (lit ''work'') = 1"
  using add_tag_appends_once [of "(plain_task 1 (lit ''Buy milk''))\<lparr>tags := [lit ''home'']\<rparr>" "lit ''work''"]
  by (simp add: plain_task_def lit_def add_tag_def)

text \<open>
  Claim C8 as stated fails. A blank tag (one space) is appended to a task without tags;
  and a task read from a record whose tag list holds a tag twice still holds it twice
  after that tag was added twice.
\<close>

theorem add_tag_keeps_blank_tag:
  "blank (lit '' '')
   \<and> tags (plain_task 1 (lit ''Buy milk'')) = []
   \<and> tags (add_tag (plain_task 1 (lit ''Buy milk'')) (lit '' '')) = [lit '' '']
   \<and> from_dict (JObj [(lit ''title'', JStr (lit ''Buy milk'')), (lit ''id'', JInt 1),
        (lit ''completed'', JBool False), (lit ''created_at'', JStr (lit ''2024-05-01 09:00:00'')),
        (lit ''tags'', JArr [JStr (lit ''home''), JStr (lit ''home'')])])
      = Return ((plain_task 1 (lit ''Buy milk''))\<lparr>tags := [lit ''home'', lit ''home'']\<rparr>)
   \<and> count_list (tags (add_tag (add_tag ((plain_task 1 (lit ''Buy milk''))\<lparr>tags := [lit ''home'', lit ''home'']\<rparr>)
         (lit ''home'')) (lit ''home''))) (lit ''home'') = 2"
  by (simp add: blank_def is_space_def add_tag_def plain_task_def lit_def from_dict_def)

section \<open>Properties of the search\<close>

lemma starts_with_iff: "starts_with s k \<longleftrightarrow> (\<exists>suf. s = k @ suf)"
  by (induction s k rule: starts_with.induct) auto

lemma py_in_iff: "py_in k s \<longleftrightarrow> (\<exists>pre suf. s = pre @ k @ suf)"
proof (induction s)
  case Nil
  then show ?case by simp
next
  case (Cons c cs)
  show ?case
  proof
    assume "py_in k (c # cs)"
    then consider "starts_with (c # cs) k" | "py_in k cs" by auto
    then show "\<exists>pre suf. c # cs = pre @ k @ suf"
    proof cases
      case 1
      then obtain suf where "c # cs = k @ suf" using starts_with_iff by blast
      then have "c # cs = [] @ k @ suf" by simp
      then show ?thesis by blast
    next
      case 2
      then obtain pre suf where "cs = pre @ k @ suf" using Cons.IH by blast
      then have "c # cs = (c # pre) @ k @ suf" by simp
      then show ?thesis by blast
    qed
  next
    assume "\<exists>pre suf. c # cs = pre @ k @ suf"
    then obtain pre suf where e: "c # cs = pre @ k @ suf" by blast
    show "py_in k (c # cs)"
    proof (cases pre)
      case Nil
      then have "starts_with (c # cs) k" using e starts_with_iff by auto
      then show ?thesis by simp
    next
      case (Cons p ps)
      then have "cs = ps @ k @ suf" using e by simp
      then have "py_in k cs" using Cons.IH by blast
      then show ?thesis by simp
    qed
  qed
qed

lemma lower_from_plain: "931 \<notin> set s \<Longrightarrow> lower_from U front s = concat (map (to_lower U) s)"
  by (induction s arbitrary: front) auto

lemma py_lower_append:
  "931 \<notin> set a \<Longrightarrow> 931 \<notin> set b \<Longrightarrow> py_lower U (a @ b) = py_lower U a @ py_lower U b"
  by (simp add: py_lower_def lower_from_plain)

lemma concat_single:
  "\<forall>c\<in>set s. length (f c) = 1 \<Longrightarrow> concat (map f s) = map (\<lambda>c. hd (f c)) s"
proof (induction s)
  case Nil
  then show ?case by simp
next
  case (Cons c s)
  then have "length (f c) = 1" by simp
  then obtain x where "f c = [x]" by (cases "f c") auto
  then show ?case using Cons by simp
qed

lemma py_lower_single:
  "931 \<notin> set s \<Longrightarrow> \<forall>c\<in>set s. length (to_lower U c) = 1 \<Longrightarrow>
   py_lower U s = map (\<lambda>c. hd (to_lower U c)) s"
  by (simp add: py_lower_def lower_from_plain concat_single)

lemma contains_ignoring_case_iff:
  assumes "931 \<notin> set s" and "\<forall>c\<in>set s. length (to_lower U c) = 1"
  shows "contains_ignoring_case U s k \<longleftrightarrow> (\<exists>pre suf. py_lower U s = pre @ py_lower U k @ suf)"
proof
  assume "contains_ignoring_case U s k"
  then obtain pre mid suf where s: "s = pre @ mid @ suf" and m: "py_lower U mid = py_lower U k"
    by (auto simp: contains_ignoring_case_def)
  have "931 \<notin> set pre" "931 \<notin> set mid" "931 \<notin> set suf" "931 \<notin> set (mid @ suf)"
    using assms(1) s by auto
  then have "py_lower U s = py_lower U pre @ py_lower U mid @ py_lower U suf"
    using s by (simp add: py_lower_append)
  then show "\<exists>pre suf. py_lower U s = pre @ py_lower U k @ suf" using m by metis
next
  let ?g = "\<lambda>c. hd (to_lower U c)"
  assume "\<exists>pre suf. py_lower U s = pre @ py_lower U k @ suf"
  then obtain pre' suf' where "py_lower U s = pre' @ py_lower U k @ suf'" by blast
  then have "map ?g s = pre' @ py_lower U k @ suf'" using assms by (simp add: py_lower_single)
  then obtain pre rest where s1: "s = pre @ rest" and r: "map ?g rest = py_lower U k @ suf'"
    by (metis map_eq_append_conv)
  then obtain mid suf where s2: "rest = mid @ suf" and m: "map ?g mid = py_lower U k"
    by (metis map_eq_append_conv)
  have "931 \<notin> set mid" "\<forall>c\<in>set mid. length (to_lower U c) = 1" using assms s1 s2 by auto
  then have "py_lower U mid = map ?g mid" by (rule py_lower_single)
  then have "py_lower U mid = py_lower U k" using m by simp
  then show "contains_ignoring_case U s k" using s1 s2 by (auto simp: contains_ignoring_case_def)
qed





section \<open>Properties of the sorts\<close>

lemma insort_key_after:
  "\<forall>a\<in>set A. f a < f x \<Longrightarrow> insort_key f x (A @ B) = A @ insort_key f x B"
  by (induction A) auto

lemma insort_key_before:
  "\<forall>e\<in>set E. f x \<le> f e \<Longrightarrow> insort_key f x (S @ E) = insort_key f x S @ E"
  by (induction S) (auto simp: insort_is_Cons)

lemma sort_key_min_block:
  "\<forall>x\<in>set xs. k \<le> f x \<Longrightarrow>
   sort_key f xs = filter (\<lambda>x. f x = k) xs @ sort_key f (filter (\<lambda>x. f x \<noteq> k) xs)"
proof (induction xs)
  case Nil
  then show ?case by simp
next
  case (Cons x xs)
  then have IH: "sort_key f xs = filter (\<lambda>x. f x = k) xs @ sort_key f (filter (\<lambda>x. f x \<noteq> k) xs)"
    by simp
  show ?case
  proof (cases "f x = k")
    case True
    have "\<forall>y\<in>set (sort_key f xs). f x \<le> f y" using Cons.prems True by simp
    then have "insort_key f x (sort_key f xs) = x # sort_key f xs" by (rule insort_is_Cons)
    then show ?thesis using True IH by simp
  next
    case False
    then have "\<forall>a\<in>set (filter (\<lambda>x. f x = k) xs). f a < f x" using Cons.prems by auto
    then have "insort_key f x (filter (\<lambda>x. f x = k) xs @ sort_key f (filter (\<lambda>x. f x \<noteq> k) xs))
      = filter (\<lambda>x. f x = k) xs @ insort_key f x (sort_key f (filter (\<lambda>x. f x \<noteq> k) xs))"
      by (rule insort_key_after)
    then show ?thesis using False IH by simp
  qed
qed

lemma sort_key_max_block:
  "\<forall>x\<in>set xs. f x \<le> k \<Longrightarrow>
   sort_key f xs = sort_key f (filter (\<lambda>x. f x \<noteq> k) xs) @ filter (\<lambda>x. f x = k) xs"
proof (induction xs)
  case Nil
  then show ?case by simp
next
  case (Cons x xs)
  then have IH: "sort_key f xs = sort_key f (filter (\<lambda>x. f x \<noteq> k) xs) @ filter (\<lambda>x. f x = k) xs"
    by simp
  show ?case
  proof (cases "f x = k")
    case True
    have lt: "\<forall>a\<in>set (sort_key f (filter (\<lambda>x. f x \<noteq> k) xs)). f a < f x"
      using Cons.prems True by auto
    have ge: "\<forall>y\<in>set (filter (\<lambda>x. f x = k) xs). f x \<le> f y" using True by simp
    have "insort_key f x (sort_key f (filter (\<lambda>x. f x \<noteq> k) xs) @ filter (\<lambda>x. f x = k) xs)
      = sort_key f (filter (\<lambda>x. f x \<noteq> k) xs) @ insort_key f x (filter (\<lambda>x. f x = k) xs)"
      using lt by (rule insort_key_after)
    also have "insort_key f x (filter (\<lambda>x. f x = k) xs) = x # filter (\<lambda>x. f x = k) xs"
      using ge by (rule insort_is_Cons)
    finally show ?thesis using True IH by simp
  next
    case False
    have "\<forall>e\<in>set (filter (\<lambda>x. f x = k) xs). f x \<le> f e" using Cons.prems by simp
    then have "insort_key f x (sort_key f (filter (\<lambda>x. f x \<noteq> k) xs) @ filter (\<lambda>x. f x = k) xs)
      = insort_key f x (sort_key f (filter (\<lambda>x. f x \<noteq> k) xs)) @ filter (\<lambda>x. f x = k) xs"
      by (rule insort_key_before)
    then show ?thesis using False IH by simp
  qed
qed

lemma py_sorted_min_block:
  assumes "\<forall>x\<in>set xs. k \<le> f x"
  shows "py_sorted f False xs = filter (\<lambda>x. f x = k) xs @ py_sorted f False (filter (\<lambda>x. f x \<noteq> k) xs)"
    and "py_sorted f True xs = py_sorted f True (filter (\<lambda>x. f x \<noteq> k) xs) @ filter (\<lambda>x. f x = k) xs"
proof -
  show "py_sorted f False xs = filter (\<lambda>x. f x = k) xs @ py_sorted f False (filter (\<lambda>x. f x \<noteq> k) xs)"
    using sort_key_min_block[OF assms] by (simp add: py_sorted_def)
  have "\<forall>x\<in>set (rev xs). k \<le> f x" using assms by simp
  then have "sort_key f (rev xs) =
     filter (\<lambda>x. f x = k) (rev xs) @ sort_key f (filter (\<lambda>x. f x \<noteq> k) (rev xs))"
    by (rule sort_key_min_block)
  then show "py_sorted f True xs = py_sorted f True (filter (\<lambda>x. f x \<noteq> k) xs) @ filter (\<lambda>x. f x = k) xs"
    by (simp add: py_sorted_def rev_filter)
qed

lemma py_sorted_max_block:
  assumes "\<forall>x\<in>set xs. f x \<le> k"
  shows "py_sorted f False xs = py_sorted f False (filter (\<lambda>x. f x \<noteq> k) xs) @ filter (\<lambda>x. f x = k) xs"
    and "py_sorted f True xs = filter (\<lambda>x. f x = k) xs @ py_sorted f True (filter (\<lambda>x. f x \<noteq> k) xs)"
proof -
  show "py_sorted f False xs = py_sorted f False (filter (\<lambda>x. f x \<noteq> k) xs) @ filter (\<lambda>x. f x = k) xs"
    using sort_key_max_block[OF assms] by (simp add: py_sorted_def)
  have "\<forall>x\<in>set (rev xs). f x \<le> k" using assms by simp
  then have "sort_key f (rev xs) =
     sort_key f (filter (\<lambda>x. f x \<noteq> k) (rev xs)) @ filter (\<lambda>x. f x = k) (rev xs)"
    by (rule sort_key_max_block)
  then show "py_sorted f True xs = filter (\<lambda>x. f x = k) xs @ py_sorted f True (filter (\<lambda>x. f x \<noteq> k) xs)"
    by (simp add: py_sorted_def rev_filter)
qed

lemma insort_key_cong_set:
  "f x = g x \<Longrightarrow> \<forall>y\<in>set ys. f y = g y \<Longrightarrow> insort_key f x ys = insort_key g x ys"
  by (induction ys) auto

lemma sort_key_cong_set: "\<forall>x\<in>set xs. f x = g x \<Longrightarrow> sort_key f xs = sort_key g xs"
proof (induction xs)
  case Nil
  then show ?case by simp
next
  case (Cons x xs)
  then have "sort_key f xs = sort_key g xs" by simp
  moreover have "insort_key f x (sort_key g xs) = insort_key g x (sort_key g xs)"
    using Cons.prems by (intro insort_key_cong_set) auto
  ultimately show ?case by simp
qed

lemma py_sorted_cong_set: "\<forall>x\<in>set xs. f x = g x \<Longrightarrow> py_sorted f r xs = py_sorted g r xs"
  using sort_key_cong_set[of xs f g] sort_key_cong_set[of "rev xs" f g]
  by (simp add: py_sorted_def)

lemma sort_tasks_priority:
  "sort_tasks lower m arg (lit ''priority'') r = py_sorted (\<lambda>t. priority_rank (priority t)) r (tasks_or_own m arg)"
  by (simp add: sort_tasks_def lit_def)

lemma sort_tasks_due_date:
  "sort_tasks lower m arg (lit ''due_date'') r = py_sorted due_key r (tasks_or_own m arg)"
  by (simp add: sort_tasks_def lit_def)

lemma priority_rank_nonneg: "0 \<le> priority_rank p"
  by (simp add: priority_rank_def priority_order_def)

lemma priority_rank_zero: "priority_rank (priority t) = 0 \<longleftrightarrow> unranked t"
  by (auto simp: priority_rank_def priority_order_def unranked_def)


text \<open>
  Claim C10. In the sort by priority a priority that is none of the three labels has
  rank 0, the rank of an absent priority. In ascending order the tasks of rank 0 (no
  priority, or one that is not recognised) come first, in their order in the input, and
  the tasks with a recognised priority follow; in descending order the same tasks come
  last, in their order in the input.
\<close>

theorem unrecognised_priority_sorts_as_none:
  "priority_rank None = 0
   \<and> (p \<noteq> high_label \<and> p \<noteq> medium_label \<and> p \<noteq> low_label \<longrightarrow> priority_rank (Some p) = 0)
   \<and> priority_rank (Some high_label) = 3 \<and> priority_rank (Some medium_label) = 2
   \<and> priority_rank (Some low_label) = 1
   \<and> sort_tasks lower m arg (lit ''priority'') False =
       filter unranked (tasks_or_own m arg)
       @ py_sorted (\<lambda>t. priority_rank (priority t)) False (filter (\<lambda>t. \<not> unranked t) (tasks_or_own m arg))
   \<and> sort_tasks lower m arg (lit ''priority'') True =
       py_sorted (\<lambda>t. priority_rank (priority t)) True (filter (\<lambda>t. \<not> unranked t) (tasks_or_own m arg))
       @ filter unranked (tasks_or_own m arg)"
proof -
  have ge: "\<forall>t\<in>set (tasks_or_own m arg). 0 \<le> priority_rank (priority t)"
    by (simp add: priority_rank_nonneg)
  have asc: "sort_tasks lower m arg (lit ''priority'') False =
       filter unranked (tasks_or_own m arg)
       @ py_sorted (\<lambda>t. priority_rank (priority t)) False (filter (\<lambda>t. \<not> unranked t) (tasks_or_own m arg))"
    using py_sorted_min_block(1)[OF ge] by (simp add: sort_tasks_priority priority_rank_zero)
  have desc: "sort_tasks lower m arg (lit ''priority'') True =
       py_sorted (\<lambda>t. priority_rank (priority t)) True (filter (\<lambda>t. \<not> unranked t) (tasks_or_own m arg))
       @ filter unranked (tasks_or_own m arg)"
    using py_sorted_min_block(2)[OF ge] by (simp add: sort_tasks_priority priority_rank_zero)
  have ranks: "priority_rank None = 0"
    "p \<noteq> high_label \<and> p \<noteq> medium_label \<and> p \<noteq> low_label \<longrightarrow> priority_rank (Some p) = 0"
    "priority_rank (Some high_label) = 3" "priority_rank (Some medium_label) = 2"
    "priority_rank (Some low_label) = 1"
    by (simp_all add: priority_rank_def priority_order_def high_label_def medium_label_def low_label_def)
  show ?thesis using asc desc ranks by blast
qed

text \<open>
  Five tasks with the priorities \<open>urgent\<close> (not a label), low, none, high and
  \<open>urgent\<close>: the tasks 1, 3 and 5 stay together, first in ascending and last in
  descending order.
\<close>

theorem unrecognised_priority_sorts_as_none_witness:
  "lit ''urgent'' \<noteq> high_label \<and> lit ''urgent'' \<noteq> medium_label \<and> lit ''urgent'' \<noteq> low_label
   \<and> priority_rank (Some (lit ''urgent'')) = 0
   \<and> map task_id (sort_tasks ascii_lower new_manager
        (Some [prio_task 1 (Some (lit ''urgent'')), prio_task 2 (Some low_label), prio_task 3 None,
               prio_task 4 (Some high_label), prio_task 5 (Some (lit ''urgent''))])
        (lit ''priority'') False) = [1, 3, 5, 2, 4]
   \<and> map task_id (sort_tasks ascii_lower new_manager
        (Some [prio_task 1 (Some (lit ''urgent'')), prio_task 2 (Some low_label), prio_task 3 None,
               prio_task 4 (Some high_label), prio_task 5 (Some (lit ''urgent''))])
        (lit ''priority'') True) = [4, 2, 1, 3, 5]"
proof -
  have u: "lit ''urgent'' \<noteq> high_label \<and> lit ''urgent'' \<noteq> medium_label \<and> lit ''urgent'' \<noteq> low_label"
    by (simp add: lit_def high_label_def medium_label_def low_label_def)
  have labels: "high_label \<noteq> medium_label" "high_label \<noteq> low_label" "medium_label \<noteq> low_label"
    by (simp_all add: high_label_def medium_label_def low_label_def)
  show ?thesis
    using u labels unrecognised_priority_sorts_as_none [of "lit ''urgent''" ascii_lower new_manager
      "Some [prio_task 1 (Some (lit ''urgent'')), prio_task 2 (Some low_label), prio_task 3 None,
             prio_task 4 (Some high_label), prio_task 5 (Some (lit ''urgent''))]"]
    by (simp add: tasks_or_own_def unranked_def prio_task_def plain_task_def py_sorted_def)
qed


lemma due_key_le:
  assumes "\<forall>t\<in>set ts. \<forall>d. due_date t = Some d \<longrightarrow> d < lit ''9999-99-99''"
    and "t \<in> set ts"
  shows "due_key t \<le> lit ''9999-99-99''"
    and "due_key t = lit ''9999-99-99'' \<longleftrightarrow> \<not> truthy (due_date t)"
    and "truthy (due_date t) \<Longrightarrow> due_key t = the (due_date t)"
proof -
  show "due_key t \<le> lit ''9999-99-99''"
  proof (cases "due_date t")
    case None
    then show ?thesis by (simp add: due_key_def)
  next
    case (Some d)
    then have "d < lit ''9999-99-99''" using assms by blast
    then show ?thesis using Some by (simp add: due_key_def less_imp_le)
  qed
  show "due_key t = lit ''9999-99-99'' \<longleftrightarrow> \<not> truthy (due_date t)"
  proof (cases "due_date t")
    case None
    then show ?thesis by (simp add: due_key_def)
  next
    case (Some d)
    then have "d < lit ''9999-99-99''" using assms by blast
    then show ?thesis using Some by (auto simp: due_key_def)
  qed
  show "due_key t = the (due_date t)" if "truthy (due_date t)"
    using that by (simp add: due_key_def)
qed

lemma sorted_py_sorted:
  "sorted (map f (py_sorted f False xs))" "sorted (rev (map f (py_sorted f True xs)))"
  by (simp_all add: py_sorted_def rev_map)

text \<open>
  Claim C6, as amended. The sort by due date orders the tasks by their key, the due
  date or \<open>9999-99-99\<close> for a task without one (no due date, or the empty string, which
  the code takes for none), under the lexicographic order: ascending, or descending
  with \<open>reverse\<close>. When every due date of the list is below \<open>9999-99-99\<close> (as every
  date \<open>YYYY-MM-DD\<close> is), the ascending sort is the tasks with a due date, sorted by it,
  followed by the tasks without one in their order in the input; the descending sort is
  the tasks without a due date, followed by the tasks with one in descending order.
\<close>

theorem sort_by_due_date:
  "sorted (map due_key (sort_tasks lower m arg (lit ''due_date'') False))
   \<and> sorted (rev (map due_key (sort_tasks lower m arg (lit ''due_date'') True)))
   \<and> ((\<forall>t\<in>set (tasks_or_own m arg). \<forall>d. due_date t = Some d \<longrightarrow> d < lit ''9999-99-99'') \<longrightarrow>
        sort_tasks lower m arg (lit ''due_date'') False =
          py_sorted (\<lambda>t. the (due_date t)) False (filter (\<lambda>t. truthy (due_date t)) (tasks_or_own m arg))
          @ filter (\<lambda>t. \<not> truthy (due_date t)) (tasks_or_own m arg)
      \<and> sort_tasks lower m arg (lit ''due_date'') True =
          filter (\<lambda>t. \<not> truthy (due_date t)) (tasks_or_own m arg)
          @ py_sorted (\<lambda>t. the (due_date t)) True (filter (\<lambda>t. truthy (due_date t)) (tasks_or_own m arg)))"
proof (intro conjI impI)
  show "sorted (map due_key (sort_tasks lower m arg (lit ''due_date'') False))"
    by (simp only: sort_tasks_due_date sorted_py_sorted)
  show "sorted (rev (map due_key (sort_tasks lower m arg (lit ''due_date'') True)))"
    by (simp only: sort_tasks_due_date sorted_py_sorted)
next
  let ?ts = "tasks_or_own m arg"
  let ?s = "lit ''9999-99-99''"
  assume H: "\<forall>t\<in>set ?ts. \<forall>d. due_date t = Some d \<longrightarrow> d < ?s"
  have le: "\<forall>t\<in>set ?ts. due_key t \<le> ?s" using due_key_le(1)[OF H] by blast
  have eq: "filter (\<lambda>t. due_key t = ?s) ?ts = filter (\<lambda>t. \<not> truthy (due_date t)) ?ts"
    using due_key_le(2)[OF H] by (intro filter_cong) auto
  have ne: "filter (\<lambda>t. due_key t \<noteq> ?s) ?ts = filter (\<lambda>t. truthy (due_date t)) ?ts"
    using due_key_le(2)[OF H] by (intro filter_cong) auto
  have key: "\<forall>t\<in>set (filter (\<lambda>t. truthy (due_date t)) ?ts). due_key t = the (due_date t)"
    using due_key_le(3)[OF H] by auto
  have cong: "py_sorted due_key r (filter (\<lambda>t. truthy (due_date t)) ?ts)
      = py_sorted (\<lambda>t. the (due_date t)) r (filter (\<lambda>t. truthy (due_date t)) ?ts)" for r
    using key by (rule py_sorted_cong_set)
  show "sort_tasks lower m arg (lit ''due_date'') False =
          py_sorted (\<lambda>t. the (due_date t)) False (filter (\<lambda>t. truthy (due_date t)) ?ts)
          @ filter (\<lambda>t. \<not> truthy (due_date t)) ?ts"
    using py_sorted_max_block(1)[OF le] by (simp only: sort_tasks_due_date eq ne cong)
  show "sort_tasks lower m arg (lit ''due_date'') True =
          filter (\<lambda>t. \<not> truthy (due_date t)) ?ts
          @ py_sorted (\<lambda>t. the (due_date t)) True (filter (\<lambda>t. truthy (due_date t)) ?ts)"
    using py_sorted_max_block(2)[OF le] by (simp only: sort_tasks_due_date eq ne cong)
qed

text \<open>
  Four tasks: task 1 without a due date, task 2 due 2024-06-01, task 3 due 2024-01-01,
  task 4 with the empty string for a due date. Ascending the order is 3, 2, 1, 4;
  descending it is 1, 4, 2, 3.
\<close>

theorem sort_by_due_date_witness:
  "list_all (\<lambda>t. case due_date t of None \<Rightarrow> True | Some d \<Rightarrow> d < lit ''9999-99-99'')
     [due_task 1 None, due_task 2 (Some (lit ''2024-06-01'')), due_task 3 (Some (lit ''2024-01-01'')),
      due_task 4 (Some [])]
   \<and> map task_id (sort_tasks ascii_lower new_manager
        (Some [due_task 1 None, due_task 2 (Some (lit ''2024-06-01'')), due_task 3 (Some (lit ''2024-01-01'')),
               due_task 4 (Some [])])
        (lit ''due_date'') False) = [3, 2, 1, 4]
   \<and> map task_id (sort_tasks ascii_lower new_manager
        (Some [due_task 1 None, due_task 2 (Some (lit ''2024-06-01'')), due_task 3 (Some (lit ''2024-01-01'')),
               due_task 4 (Some [])])
        (lit ''due_date'') True) = [1, 4, 2, 3]"
proof -
  let ?ts = "[due_task 1 None, due_task 2 (Some (lit ''2024-06-01'')), due_task 3 (Some (lit ''2024-01-01'')),
      due_task 4 (Some [])]"
  have h: "\<forall>t\<in>set (tasks_or_own new_manager (Some ?ts)).
      \<forall>d. due_date t = Some d \<longrightarrow> d < lit ''9999-99-99''"
    by (simp add: tasks_or_own_def due_task_def plain_task_def lit_def)
  have l: "list_all (\<lambda>t. case due_date t of None \<Rightarrow> True | Some d \<Rightarrow> d < lit ''9999-99-99'') ?ts"
    by (simp add: due_task_def plain_task_def lit_def)
  have a: "sort_tasks ascii_lower new_manager (Some ?ts) (lit ''due_date'') False =
          py_sorted (\<lambda>t. the (due_date t)) False
            (filter (\<lambda>t. truthy (due_date t)) (tasks_or_own new_manager (Some ?ts)))
          @ filter (\<lambda>t. \<not> truthy (due_date t)) (tasks_or_own new_manager (Some ?ts))"
    and d: "sort_tasks ascii_lower new_manager (Some ?ts) (lit ''due_date'') True =
          filter (\<lambda>t. \<not> truthy (due_date t)) (tasks_or_own new_manager (Some ?ts))
          @ py_sorted (\<lambda>t. the (due_date t)) True
              (filter (\<lambda>t. truthy (due_date t)) (tasks_or_own new_manager (Some ?ts)))"
    using h sort_by_due_date [of ascii_lower new_manager "Some ?ts"] by blast+
  show ?thesis
    by (simp only: a d) (simp add: l tasks_or_own_def due_task_def plain_task_def py_sorted_def lit_def)
qed

text \<open>
  Claim C6 as stated fails. Of task 1, due 2024-01-01, and task 2, without a due date,
  the descending sort puts task 2 first. And of task 1, without a due date, and task 2,
  whose due date is the text \<open>tomorrow\<close>, the ascending sort puts task 1 first.
\<close>

theorem reverse_puts_undated_first:
  "due_date (due_task 1 (Some (lit ''2024-01-01''))) = Some (lit ''2024-01-01'')
   \<and> due_date (due_task 2 None) = None
   \<and> sort_tasks ascii_lower new_manager
        (Some [due_task 1 (Some (lit ''2024-01-01'')), due_task 2 None]) (lit ''due_date'') True
      = [due_task 2 None, due_task 1 (Some (lit ''2024-01-01''))]
   \<and> sort_tasks ascii_lower new_manager
        (Some [due_task 1 None, due_task 2 (Some (lit ''tomorrow''))]) (lit ''due_date'') False
      = [due_task 1 None, due_task 2 (Some (lit ''tomorrow''))]"
  by (simp add: sort_tasks_def tasks_or_own_def py_sorted_def due_key_def due_task_def
      plain_task_def lit_def)

section \<open>Properties of load, save, export and import\<close>

lemma foldl_add_tag_fields:
  "task_id (foldl add_tag t xs) = task_id t"
  "title (foldl add_tag t xs) = title t"
  "completed (foldl add_tag t xs) = completed t"
  "created_at (foldl add_tag t xs) = created_at t"
  "priority (foldl add_tag t xs) = priority t"
  "due_date (foldl add_tag t xs) = due_date t"
  by (induction xs arbitrary: t) (simp_all add: add_tag_def)

lemma task_id_row_task: "task_id (row_task now n row) = n"
  by (simp add: row_task_def foldl_add_tag_fields)

lemma import_row_eq:
  "import_row now m row = m\<lparr>tasks := tasks m @ [row_task now (generate_id m) row]\<rparr>"
  by (cases "row ! 2 = done_label")
     (simp_all add: import_row_def add_task_def mark_completed_def row_task_def Let_def)

lemma generate_id_append:
  "task_id t = generate_id m \<Longrightarrow> generate_id (m\<lparr>tasks := tasks m @ [t]\<rparr>) = generate_id m + 1"
proof -
  assume a: "task_id t = generate_id m"
  show ?thesis
  proof (cases "tasks m = []")
    case True
    then show ?thesis using a by (simp add: generate_id_def)
  next
    case False
    have fin: "finite (task_id ` set (tasks m))" by simp
    have ne: "task_id ` set (tasks m) \<noteq> {}" using False by simp
    have "Max (insert (task_id t) (task_id ` set (tasks m))) = max (task_id t) (Max (task_id ` set (tasks m)))"
      using fin ne by (rule Max_insert)
    then show ?thesis using a False by (simp add: generate_id_eq)
  qed
qed

lemma import_rows_eq:
  "import_rows clock k m rows = m\<lparr>tasks := tasks m @ rows_tasks clock k (generate_id m) rows\<rparr>"
proof (induction rows arbitrary: k m)
  case Nil
  then show ?case by simp
next
  case (Cons row rows)
  show ?case
  proof (cases "6 \<le> length row")
    case True
    let ?m1 = "m\<lparr>tasks := tasks m @ [row_task (clock k) (generate_id m) row]\<rparr>"
    have g: "generate_id ?m1 = generate_id m + 1"
      by (rule generate_id_append) (simp add: task_id_row_task)
    have "import_rows clock k m (row # rows) = import_rows clock (Suc k) ?m1 rows"
      using True by (simp add: import_row_eq)
    also have "\<dots> = ?m1\<lparr>tasks := tasks ?m1 @ rows_tasks clock (Suc k) (generate_id ?m1) rows\<rparr>"
      by (rule Cons.IH)
    finally show ?thesis using True g by simp
  next
    case False
    then show ?thesis using Cons.IH by simp
  qed
qed

lemma rows_tasks_nth:
  "length (rows_tasks clock k n rows) = length (filter (\<lambda>r. 6 \<le> length r) rows)"
  "j < length (filter (\<lambda>r. 6 \<le> length r) rows) \<Longrightarrow>
     rows_tasks clock k n rows ! j = row_task (clock (k + j)) (n + int j) (filter (\<lambda>r. 6 \<le> length r) rows ! j)"
proof (induction rows arbitrary: k n j)
  case Nil
  { case 1 show ?case by simp }
  { case 2 then show ?case by simp }
next
  case (Cons row rows)
  { case 1 show ?case using Cons.IH(1) by simp }
  { case 2
    show ?case
    proof (cases "6 \<le> length row")
      case False
      then show ?thesis using 2 Cons.IH(2) by simp
    next
      case True
      show ?thesis
      proof (cases j)
        case 0
        then show ?thesis using True by simp
      next
        case (Suc j')
        then have "j' < length (filter (\<lambda>r. 6 \<le> length r) rows)" using 2 True by simp
        then have "rows_tasks clock (Suc k) (n + 1) rows ! j'
           = row_task (clock (Suc k + j')) (n + 1 + int j') (filter (\<lambda>r. 6 \<le> length r) rows ! j')"
          by (rule Cons.IH(2))
        then show ?thesis using True Suc by (simp add: algebra_simps)
      qed
    qed }
qed

lemma assign_ids_nth:
  "length (assign_ids n ts) = length ts"
  "j < length ts \<Longrightarrow> assign_ids n ts ! j = (ts ! j)\<lparr>task_id := n + int j\<rparr>"
proof (induction ts arbitrary: n j)
  case Nil
  { case 1 show ?case by simp }
  { case 2 then show ?case by simp }
next
  case (Cons t ts)
  { case 1 show ?case using Cons.IH(1) by simp }
  { case 2
    show ?case
    proof (cases j)
      case 0
      then show ?thesis by simp
    next
      case (Suc j')
      then have "j' < length ts" using 2 by simp
      then have "assign_ids (n + 1) ts ! j' = (ts ! j')\<lparr>task_id := n + 1 + int j'\<rparr>"
        by (rule Cons.IH(2))
      then show ?thesis using Suc by (simp add: algebra_simps)
    qed }
qed

lemma from_dict_raises: "from_dict d = Raise e \<Longrightarrow> e = KeyError \<or> e = TypeError"
  by (cases d) (auto simp: from_dict_def Let_def split: if_splits option.splits prod.splits)

lemma from_dicts_raises: "from_dicts ds = Raise e \<Longrightarrow> e = KeyError \<or> e = TypeError"
proof (induction ds)
  case Nil
  then show ?case by simp
next
  case (Cons d ds)
  then show ?case
    by (auto split: outcome.splits dest: from_dict_raises)
qed

lemma load_tasks_cases:
  "load_tasks w =
     (case read_tasks (files w (filename (mgr w))) of
        Raise e \<Rightarrow> (if e = FileNotFoundError then (Return False, w) else (Raise e, w))
      | Unmodelled \<Rightarrow> (Unmodelled, w)
      | Return ts \<Rightarrow> (Return True, w\<lparr>mgr := (mgr w)\<lparr>tasks := ts\<rparr>\<rparr>))"
  by (auto simp: load_tasks_def load_body_def split: outcome.splits py_error.splits)

text \<open>
  Claim C7. When the backing file does not exist (more generally, when the read ends
  with \<open>FileNotFoundError\<close>) \<open>load_tasks\<close> returns \<open>False\<close> and leaves the manager
  and the files as they are. Every other failure is raised to the caller, the state
  left as it is: an error of \<open>open\<close>, an error of the JSON parser, a JSON value that
  cannot be iterated, a record on which \<open>from_dict\<close> raises. A successful read
  replaces the collection and returns \<open>True\<close>.
\<close>

theorem load_tasks_missing_file:
  "(files w (filename (mgr w)) = Absent \<longrightarrow> load_tasks w = (Return False, w))
   \<and> (read_tasks (files w (filename (mgr w))) = Raise FileNotFoundError \<longrightarrow> load_tasks w = (Return False, w))
   \<and> (e \<noteq> FileNotFoundError \<and> read_tasks (files w (filename (mgr w))) = Raise e \<longrightarrow> load_tasks w = (Raise e, w))
   \<and> (e \<noteq> FileNotFoundError \<and> files w (filename (mgr w)) = Blocked e \<longrightarrow> load_tasks w = (Raise e, w))
   \<and> (e \<noteq> FileNotFoundError \<and> files w (filename (mgr w)) = Holds (NotJson e) \<longrightarrow> load_tasks w = (Raise e, w))
   \<and> (files w (filename (mgr w)) = Holds (JsonText v) \<and> py_iter v = Raise e \<longrightarrow> load_tasks w = (Raise e, w))
   \<and> (files w (filename (mgr w)) = Holds (JsonText v) \<and> py_iter v = Return ds \<and> from_dicts ds = Raise e
        \<longrightarrow> load_tasks w = (Raise e, w))
   \<and> (read_tasks (files w (filename (mgr w))) = Return ts \<longrightarrow>
        load_tasks w = (Return True, w\<lparr>mgr := (mgr w)\<lparr>tasks := ts\<rparr>\<rparr>))"
proof (intro conjI impI)
  assume "files w (filename (mgr w)) = Absent"
  then show "load_tasks w = (Return False, w)"
    by (simp add: load_tasks_cases read_tasks_def read_json_def)
next
  assume "read_tasks (files w (filename (mgr w))) = Raise FileNotFoundError"
  then show "load_tasks w = (Return False, w)" by (simp add: load_tasks_cases)
next
  assume "e \<noteq> FileNotFoundError \<and> read_tasks (files w (filename (mgr w))) = Raise e"
  then show "load_tasks w = (Raise e, w)" by (simp add: load_tasks_cases)
next
  assume "e \<noteq> FileNotFoundError \<and> files w (filename (mgr w)) = Blocked e"
  then show "load_tasks w = (Raise e, w)" by (simp add: load_tasks_cases read_tasks_def read_json_def)
next
  assume "e \<noteq> FileNotFoundError \<and> files w (filename (mgr w)) = Holds (NotJson e)"
  then show "load_tasks w = (Raise e, w)" by (simp add: load_tasks_cases read_tasks_def read_json_def)
next
  assume a: "files w (filename (mgr w)) = Holds (JsonText v) \<and> py_iter v = Raise e"
  then have "e = TypeError" by (cases v) auto
  then show "load_tasks w = (Raise e, w)" using a by (simp add: load_tasks_cases read_tasks_def read_json_def)
next
  assume a: "files w (filename (mgr w)) = Holds (JsonText v) \<and> py_iter v = Return ds \<and> from_dicts ds = Raise e"
  then have "e \<noteq> FileNotFoundError" using from_dicts_raises[of ds e] by auto
  then show "load_tasks w = (Raise e, w)" using a by (simp add: load_tasks_cases read_tasks_def read_json_def)
next
  assume "read_tasks (files w (filename (mgr w))) = Return ts"
  then show "load_tasks w = (Return True, w\<lparr>mgr := (mgr w)\<lparr>tasks := ts\<rparr>\<rparr>)"
    by (simp add: load_tasks_cases)
qed

text \<open>
  A missing file with a task in memory; a file that cannot be opened; a file that is
  not JSON; the JSON number 7; a record without \<open>id\<close>; and a well-formed file.
\<close>

theorem load_tasks_missing_file_witness:
  "load_tasks (world_of (new_manager\<lparr>tasks := [plain_task 1 (lit ''Buy milk'')]\<rparr>) Absent)
     = (Return False, world_of (new_manager\<lparr>tasks := [plain_task 1 (lit ''Buy milk'')]\<rparr>) Absent)
   \<and> load_tasks (world_of new_manager (Blocked PermissionError))
     = (Raise PermissionError, world_of new_manager (Blocked PermissionError))
   \<and> load_tasks (world_of new_manager (Holds (NotJson JSONDecodeError)))
     = (Raise JSONDecodeError, world_of new_manager (Holds (NotJson JSONDecodeError)))
   \<and> load_tasks (world_of new_manager (Holds (JsonText (JInt 7))))
     = (Raise TypeError, world_of new_manager (Holds (JsonText (JInt 7))))
   \<and> load_tasks (world_of new_manager (Holds (JsonText (JArr [JObj [(lit ''title'', JStr (lit ''Clean''))]]))))
     = (Raise KeyError, world_of new_manager (Holds (JsonText (JArr [JObj [(lit ''title'', JStr (lit ''Clean''))]]))))
   \<and> load_tasks (world_of new_manager (Holds (JsonText (JArr [to_dict (plain_task 1 (lit ''Buy milk''))]))))
     = (Return True, (world_of new_manager (Holds (JsonText (JArr [to_dict (plain_task 1 (lit ''Buy milk''))]))))
         \<lparr>mgr := new_manager\<lparr>tasks := [plain_task 1 (lit ''Buy milk'')]\<rparr>\<rparr>)"
proof -
  have k: "from_dicts [JObj [(lit ''title'', JStr (lit ''Clean''))]] = Raise KeyError"
    by (simp add: from_dict_def lit_def)
  have r: "read_tasks (Holds (JsonText (JArr [to_dict (plain_task 1 (lit ''Buy milk''))])))
      = Return [plain_task 1 (lit ''Buy milk'')]"
    by (simp add: read_tasks_def read_json_def from_dict_def to_dict_def plain_task_def lit_def)
  show ?thesis
    using k r
      load_tasks_missing_file [of "world_of (new_manager\<lparr>tasks := [plain_task 1 (lit ''Buy milk'')]\<rparr>) Absent"]
      load_tasks_missing_file [of "world_of new_manager (Blocked PermissionError)" PermissionError]
      load_tasks_missing_file [of "world_of new_manager (Holds (NotJson JSONDecodeError))" JSONDecodeError]
      load_tasks_missing_file [of "world_of new_manager (Holds (JsonText (JInt 7)))" TypeError "JInt 7"]
      load_tasks_missing_file [of "world_of new_manager (Holds (JsonText (JArr [JObj [(lit ''title'', JStr (lit ''Clean''))]])))"
         KeyError "JArr [JObj [(lit ''title'', JStr (lit ''Clean''))]]" "[JObj [(lit ''title'', JStr (lit ''Clean''))]]"]
      load_tasks_missing_file [of "world_of new_manager (Holds (JsonText (JArr [to_dict (plain_task 1 (lit ''Buy milk''))])))"
         e v ds "[plain_task 1 (lit ''Buy milk'')]"]
    by (simp add: world_of_def)
qed

lemma contained:
  "except_Exception console (then_print console b r) =
     (case console of
        None \<Rightarrow> (case fst r of Return u \<Rightarrow> Return b | Raise e \<Rightarrow> Return False | Unmodelled \<Rightarrow> Unmodelled,
                 snd r)
      | Some e' \<Rightarrow> (case fst r of Unmodelled \<Rightarrow> Unmodelled | _ \<Rightarrow> Raise e', snd r))"
  by (cases r; cases "fst r"; cases console) (auto simp: except_Exception_def then_print_def)

lemma except_Exception_no_raise: "fst (except_Exception None r) \<noteq> Raise e"
  by (cases r) (auto simp: except_Exception_def split: outcome.splits)

lemma except_Exception_caught: "fst r = Raise e \<Longrightarrow> except_Exception None r = (Return False, snd r)"
  by (cases r) (auto simp: except_Exception_def)

lemma write_json_cases:
  "write_json w path =
     (case files w path of
        Blocked e \<Rightarrow> (Raise e, w)
      | _ \<Rightarrow>
          (case write_fault w path of
             Some e \<Rightarrow> (Raise e, w\<lparr>files := (files w)(path := Holds Truncated)\<rparr>)
           | None \<Rightarrow>
               if list_all task_encodable (tasks (mgr w)) then
                 (Return (),
                  w\<lparr>files := (files w)(path := Holds (JsonText (JArr (map to_dict (tasks (mgr w))))))\<rparr>)
               else (Raise UnicodeEncodeError, w\<lparr>files := (files w)(path := Holds Truncated)\<rparr>)))"
  by (cases "files w path") (simp_all add: write_json_def)

lemma write_csv_cases:
  "write_csv w path =
     (case files w path of
        Blocked e \<Rightarrow> (Raise e, w)
      | _ \<Rightarrow>
          (case write_fault w path of
             Some e \<Rightarrow> (Raise e, w\<lparr>files := (files w)(path := Holds Truncated)\<rparr>)
           | None \<Rightarrow>
               if list_all task_encodable (tasks (mgr w)) then
                 (Return (),
                  w\<lparr>files := (files w)(path :=
                      Holds (CsvText (csv_header # map csv_row (tasks (mgr w))) None))\<rparr>)
               else
                 (Raise UnicodeEncodeError,
                  w\<lparr>files := (files w)(path :=
                      Holds (CsvText (csv_header # map csv_row (takeWhile task_encodable (tasks (mgr w))))
                               None))\<rparr>)))"
  by (cases "files w path") (simp_all add: write_csv_def)

lemma mgr_write: "mgr (snd (write_json w path)) = mgr w" "mgr (snd (write_csv w path)) = mgr w"
  by (cases "files w path"; cases "write_fault w path"; simp add: write_json_cases write_csv_cases)+

lemma write_never_unmodelled:
  "fst (write_json w path) \<noteq> Unmodelled" "fst (write_csv w path) \<noteq> Unmodelled"
  by (cases "files w path"; cases "write_fault w path"; simp add: write_json_cases write_csv_cases)+

lemma export_tasks_on_cases:
  "export_tasks_on console lower w path format =
     (if lower format = lit ''json'' then except_Exception console (then_print console True (write_json w path))
      else if lower format = lit ''csv'' then except_Exception console (then_print console True (write_csv w path))
      else except_Exception console (then_print console False (Return (), w)))"
  by (simp add: export_tasks_on_def export_body_def)

lemma mgr_world_of: "mgr (world_of m f) = m" "files (world_of m f) p = f" "write_fault (world_of m f) p = None"
  by (simp_all add: world_of_def)

lemma csv_not_json [simp]: "lit ''csv'' \<noteq> lit ''json''" "lit ''json'' \<noteq> lit ''csv''"
  by (simp_all add: lit_def)

lemma import_tasks_cases:
  "import_tasks lower clock w path format =
     (if lower format = lit ''json'' then
        (case read_tasks (files w path) of
           Raise e \<Rightarrow> (Return False, w)
         | Unmodelled \<Rightarrow> (Unmodelled, w)
         | Return imported \<Rightarrow>
             (Return True, w\<lparr>mgr := (mgr w)\<lparr>tasks := tasks (mgr w) @ assign_ids (generate_id (mgr w)) imported\<rparr>\<rparr>))
      else if lower format = lit ''csv'' then
        (case read_csv (files w path) of
           Raise e \<Rightarrow> (Return False, w)
         | Unmodelled \<Rightarrow> (Unmodelled, w)
         | Return (rows, stop) \<Rightarrow>
             (case rows of
                [] \<Rightarrow> (Return False, w)
              | header # data \<Rightarrow>
                  (case stop of None \<Rightarrow> Return True | Some e \<Rightarrow> Return False,
                   w\<lparr>mgr := (mgr w)\<lparr>tasks := tasks (mgr w) @ rows_tasks clock 0 (generate_id (mgr w)) data\<rparr>\<rparr>)))
      else (Return False, w))"
  by (simp add: import_tasks_def import_tasks_on_def import_body_def except_Exception_def then_print_def
      Let_def import_rows_eq split: outcome.splits list.splits option.splits prod.splits)

lemma readable_samples:
  "readable_row csv_header" "readable_row (sample_row (lit ''Cook''))" "readable_row (sample_row (lit ''Read''))"
  "readable_row (sample_row (lit ''Clean''))"
  by (simp_all add: readable_row_def field_limit_def csv_header_def sample_row_def lit_def active_label_def)

text \<open>
  Claim C3. A JSON import that reads the tasks \<open>imported\<close> succeeds and appends them
  with the ids \<open>next\<close>, \<open>next + 1\<close>, ... in their order, \<open>next\<close> being the id that
  \<open>_generate_id\<close> gives for the collection, whatever ids the file gave them, every other
  field as read. A CSV import whose reader yields a header and data rows and then ends
  succeeds and appends one task for each row of at least 6 columns, in their order, with
  the ids \<open>next\<close>, \<open>next + 1\<close>, ... The tasks of the collection stay as they are, and
  their ids are all below \<open>next\<close>.
\<close>

theorem import_assigns_fresh_ids:
  "(lower format = lit ''json'' \<and> read_tasks (files w path) = Return imported \<longrightarrow>
      import_tasks lower clock w path format
        = (Return True,
           w\<lparr>mgr := (mgr w)\<lparr>tasks := tasks (mgr w) @ assign_ids (generate_id (mgr w)) imported\<rparr>\<rparr>)
      \<and> length (assign_ids (generate_id (mgr w)) imported) = length imported
      \<and> (\<forall>j<length imported.
            assign_ids (generate_id (mgr w)) imported ! j
              = (imported ! j)\<lparr>task_id := generate_id (mgr w) + int j\<rparr>))
   \<and> (lower format = lit ''csv'' \<and> read_csv (files w path) = Return (header # rows, None) \<longrightarrow>
      import_tasks lower clock w path format
        = (Return True,
           w\<lparr>mgr := (mgr w)\<lparr>tasks := tasks (mgr w) @ rows_tasks clock 0 (generate_id (mgr w)) rows\<rparr>\<rparr>)
      \<and> length (rows_tasks clock 0 (generate_id (mgr w)) rows) = length (filter (\<lambda>r. 6 \<le> length r) rows)
      \<and> (\<forall>j<length (filter (\<lambda>r. 6 \<le> length r) rows).
            rows_tasks clock 0 (generate_id (mgr w)) rows ! j
              = row_task (clock j) (generate_id (mgr w) + int j) (filter (\<lambda>r. 6 \<le> length r) rows ! j)
            \<and> task_id (rows_tasks clock 0 (generate_id (mgr w)) rows ! j) = generate_id (mgr w) + int j))
   \<and> (\<forall>t\<in>set (tasks (mgr w)). task_id t < generate_id (mgr w))"
proof (intro conjI impI allI ballI)
  assume h: "lower format = lit ''json'' \<and> read_tasks (files w path) = Return imported"
  show "import_tasks lower clock w path format
        = (Return True,
           w\<lparr>mgr := (mgr w)\<lparr>tasks := tasks (mgr w) @ assign_ids (generate_id (mgr w)) imported\<rparr>\<rparr>)"
    using h by (simp add: import_tasks_cases)
  show "length (assign_ids (generate_id (mgr w)) imported) = length imported"
    by (rule assign_ids_nth(1))
  show "assign_ids (generate_id (mgr w)) imported ! j
              = (imported ! j)\<lparr>task_id := generate_id (mgr w) + int j\<rparr>" if "j < length imported" for j
    using that by (rule assign_ids_nth(2))
next
  assume h: "lower format = lit ''csv'' \<and> read_csv (files w path) = Return (header # rows, None)"
  show "import_tasks lower clock w path format
        = (Return True,
           w\<lparr>mgr := (mgr w)\<lparr>tasks := tasks (mgr w) @ rows_tasks clock 0 (generate_id (mgr w)) rows\<rparr>\<rparr>)"
    using h by (simp add: import_tasks_cases)
  show "length (rows_tasks clock 0 (generate_id (mgr w)) rows) = length (filter (\<lambda>r. 6 \<le> length r) rows)"
    by (rule rows_tasks_nth(1))
  show "rows_tasks clock 0 (generate_id (mgr w)) rows ! j
              = row_task (clock j) (generate_id (mgr w) + int j) (filter (\<lambda>r. 6 \<le> length r) rows ! j)"
    if "j < length (filter (\<lambda>r. 6 \<le> length r) rows)" for j
    using rows_tasks_nth(2)[OF that, of clock 0 "generate_id (mgr w)"] by simp
  show "task_id (rows_tasks clock 0 (generate_id (mgr w)) rows ! j) = generate_id (mgr w) + int j"
    if "j < length (filter (\<lambda>r. 6 \<le> length r) rows)" for j
    using rows_tasks_nth(2)[OF that, of clock 0 "generate_id (mgr w)"] by (simp add: task_id_row_task)
next
  fix t assume "t \<in> set (tasks (mgr w))"
  then show "task_id t < generate_id (mgr w)" by (rule generate_id_gt)
qed

text \<open>
  The scenario of the specification: a manager with the tasks 1, 2 and 3 imports a CSV
  file of two data rows, and holds the ids 1, 2, 3, 4, 5; the same with a JSON file of
  two records that carry the ids 1 and 7.
\<close>

theorem import_assigns_fresh_ids_witness:
  "map task_id (tasks (mgr (snd (import_tasks ascii_lower (\<lambda>k. lit ''2024-05-02 09:00:00'')
        (world_of (new_manager\<lparr>tasks := [plain_task 1 (lit ''Buy milk''), plain_task 2 (lit ''Clean''),
             plain_task 3 (lit ''Pay bills'')]\<rparr>)
           (Holds (CsvText [csv_header, sample_row (lit ''Cook''), sample_row (lit ''Read'')] None)))
        (lit ''in.csv'') (lit ''csv''))))) = [1, 2, 3, 4, 5]
   \<and> map task_id (tasks (mgr (snd (import_tasks ascii_lower (\<lambda>k. lit ''2024-05-02 09:00:00'')
        (world_of (new_manager\<lparr>tasks := [plain_task 1 (lit ''Buy milk''), plain_task 2 (lit ''Clean''),
             plain_task 3 (lit ''Pay bills'')]\<rparr>)
           (Holds (JsonText (JArr [to_dict (plain_task 1 (lit ''Cook'')), to_dict (plain_task 7 (lit ''Read''))]))))
        (lit ''in.json'') (lit ''json''))))) = [1, 2, 3, 4, 5]"
proof -
  let ?m = "new_manager\<lparr>tasks := [plain_task 1 (lit ''Buy milk''), plain_task 2 (lit ''Clean''),
             plain_task 3 (lit ''Pay bills'')]\<rparr>"
  let ?clock = "\<lambda>k::nat. lit ''2024-05-02 09:00:00''"
  let ?wc = "world_of ?m (Holds (CsvText [csv_header, sample_row (lit ''Cook''), sample_row (lit ''Read'')] None))"
  let ?wj = "world_of ?m (Holds (JsonText (JArr [to_dict (plain_task 1 (lit ''Cook'')),
             to_dict (plain_task 7 (lit ''Read''))])))"
  have hc: "ascii_lower (lit ''csv'') = lit ''csv'' \<and>
      read_csv (files ?wc (lit ''in.csv''))
        = Return (csv_header # [sample_row (lit ''Cook''), sample_row (lit ''Read'')], None)"
    by (simp add: ascii_lower_def lit_def read_csv_def mgr_world_of readable_row_def field_limit_def
        csv_header_def sample_row_def active_label_def)
  have hj: "ascii_lower (lit ''json'') = lit ''json'' \<and>
      read_tasks (files ?wj (lit ''in.json'')) = Return [plain_task 1 (lit ''Cook''), plain_task 7 (lit ''Read'')]"
    by (simp add: ascii_lower_def read_tasks_def read_json_def from_dict_def to_dict_def plain_task_def
        lit_def mgr_world_of)
  have ec: "import_tasks ascii_lower ?clock ?wc (lit ''in.csv'') (lit ''csv'')
      = (Return True, ?wc\<lparr>mgr := (mgr ?wc)\<lparr>tasks := tasks (mgr ?wc)
           @ rows_tasks ?clock 0 (generate_id (mgr ?wc)) [sample_row (lit ''Cook''), sample_row (lit ''Read'')]\<rparr>\<rparr>)"
    using hc import_assigns_fresh_ids [of ascii_lower "lit ''csv''" ?wc "lit ''in.csv''" imported ?clock
        csv_header "[sample_row (lit ''Cook''), sample_row (lit ''Read'')]"]
    by blast
  have ej: "import_tasks ascii_lower ?clock ?wj (lit ''in.json'') (lit ''json'')
      = (Return True, ?wj\<lparr>mgr := (mgr ?wj)\<lparr>tasks := tasks (mgr ?wj)
           @ assign_ids (generate_id (mgr ?wj)) [plain_task 1 (lit ''Cook''), plain_task 7 (lit ''Read'')]\<rparr>\<rparr>)"
    using hj import_assigns_fresh_ids [of ascii_lower "lit ''json''" ?wj "lit ''in.json''"
        "[plain_task 1 (lit ''Cook''), plain_task 7 (lit ''Read'')]" ?clock]
    by blast
  show ?thesis
    by (simp only: ec ej) (simp add: mgr_world_of generate_id_def task_id_row_task sample_row_def plain_task_def)
qed

lemma export_tasks_cases:
  "export_tasks lower w path format =
     (if lower format = lit ''json'' then
        (case fst (write_json w path) of Return u \<Rightarrow> Return True | Raise e \<Rightarrow> Return False
           | Unmodelled \<Rightarrow> Unmodelled,
         snd (write_json w path))
      else if lower format = lit ''csv'' then
        (case fst (write_csv w path) of Return u \<Rightarrow> Return True | Raise e \<Rightarrow> Return False
           | Unmodelled \<Rightarrow> Unmodelled,
         snd (write_csv w path))
      else (Return False, w))"
  by (simp add: export_tasks_def export_tasks_on_cases contained)

lemma save_tasks_cases:
  "save_tasks w =
     (case files w (filename (mgr w)) of
        Blocked e \<Rightarrow> (Raise e, w)
      | _ \<Rightarrow>
          (case write_fault w (filename (mgr w)) of
             Some e \<Rightarrow> (Raise e, w\<lparr>files := (files w)(filename (mgr w) := Holds Truncated)\<rparr>)
           | None \<Rightarrow>
               if list_all task_encodable (tasks (mgr w)) then
                 (Return (),
                  w\<lparr>files := (files w)(filename (mgr w) :=
                      Holds (JsonText (JArr (map to_dict (tasks (mgr w))))))\<rparr>)
               else (Raise UnicodeEncodeError,
                     w\<lparr>files := (files w)(filename (mgr w) := Holds Truncated)\<rparr>)))"
  by (simp add: save_tasks_def write_json_cases)

text \<open>
  Claim C5, as amended. On a console that prints every message no exception leaves
  \<open>export_tasks\<close> or \<open>import_tasks\<close>: an exception of the body becomes the result
  \<open>False\<close>, and an export returns \<open>True\<close> or \<open>False\<close>. On a console that refuses the
  messages the exception of \<open>print\<close> leaves the export, and the import as well
  wherever the model says what the import does.
  \<open>save_tasks\<close> contains nothing: the exception of \<open>open\<close>, a fault of the device
  while writing and the error of a string that cannot be encoded reach the caller.
\<close>

theorem export_import_contain_errors:
  "fst (export_tasks lower w path format) \<noteq> Raise e
   \<and> fst (import_tasks lower clock w path format) \<noteq> Raise e
   \<and> (fst (export_tasks lower w path format) = Return True
        \<or> fst (export_tasks lower w path format) = Return False)
   \<and> (fst (export_body None lower w path format) = Raise e \<longrightarrow>
        fst (export_tasks lower w path format) = Return False)
   \<and> (fst (import_body None lower clock w path format) = Raise e \<longrightarrow>
        fst (import_tasks lower clock w path format) = Return False)
   \<and> fst (export_tasks_on (Some e) lower w path format) = Raise e
   \<and> (fst (import_tasks_on (Some e) lower clock w path format) = Raise e
        \<or> fst (import_tasks_on (Some e) lower clock w path format) = Unmodelled)
   \<and> (files w (filename (mgr w)) = Blocked e \<longrightarrow> save_tasks w = (Raise e, w))
   \<and> ((\<forall>b. files w (filename (mgr w)) \<noteq> Blocked b) \<and> write_fault w (filename (mgr w)) = Some e \<longrightarrow>
        fst (save_tasks w) = Raise e)
   \<and> ((\<forall>b. files w (filename (mgr w)) \<noteq> Blocked b) \<and> write_fault w (filename (mgr w)) = None
        \<and> \<not> list_all task_encodable (tasks (mgr w)) \<longrightarrow>
        fst (save_tasks w) = Raise UnicodeEncodeError)"
proof (intro conjI impI)
  show "fst (export_tasks lower w path format) \<noteq> Raise e"
    by (simp add: export_tasks_def export_tasks_on_def except_Exception_no_raise)
  show "fst (import_tasks lower clock w path format) \<noteq> Raise e"
    by (simp add: import_tasks_def import_tasks_on_def except_Exception_no_raise)
  show "fst (export_tasks lower w path format) = Return True
        \<or> fst (export_tasks lower w path format) = Return False"
    using write_never_unmodelled[of w path]
    by (cases "fst (write_json w path)"; cases "fst (write_csv w path)")
       (simp_all add: export_tasks_cases)
  show "fst (export_tasks lower w path format) = Return False"
    if "fst (export_body None lower w path format) = Raise e"
    using that by (simp add: export_tasks_def export_tasks_on_def except_Exception_caught)
  show "fst (import_tasks lower clock w path format) = Return False"
    if "fst (import_body None lower clock w path format) = Raise e"
    using that by (simp add: import_tasks_def import_tasks_on_def except_Exception_caught)
  show "fst (export_tasks_on (Some e) lower w path format) = Raise e"
    using write_never_unmodelled[of w path]
    by (cases "fst (write_json w path)"; cases "fst (write_csv w path)")
       (simp_all add: export_tasks_on_cases contained)
  show "fst (import_tasks_on (Some e) lower clock w path format) = Raise e
        \<or> fst (import_tasks_on (Some e) lower clock w path format) = Unmodelled"
    by (simp add: import_tasks_on_def import_body_def contained split: outcome.splits)
  show "save_tasks w = (Raise e, w)" if "files w (filename (mgr w)) = Blocked e"
    using that by (simp add: save_tasks_cases)
  show "fst (save_tasks w) = Raise e"
    if "(\<forall>b. files w (filename (mgr w)) \<noteq> Blocked b) \<and> write_fault w (filename (mgr w)) = Some e"
    using that by (cases "files w (filename (mgr w))") (simp_all add: save_tasks_cases)
  show "fst (save_tasks w) = Raise UnicodeEncodeError"
    if "(\<forall>b. files w (filename (mgr w)) \<noteq> Blocked b) \<and> write_fault w (filename (mgr w)) = None
        \<and> \<not> list_all task_encodable (tasks (mgr w))"
    using that by (cases "files w (filename (mgr w))") (simp_all add: save_tasks_cases)
qed

text \<open>
  On a console that prints: an export to a path that cannot be opened, an import of a
  missing file and an import of a file that is not JSON return \<open>False\<close>, the body
  having raised. On a console that refuses the messages the same export raises the
  error of \<open>print\<close>. A save on a full disk raises \<open>OSError\<close>, and a save of a task
  whose title is a lone surrogate (code point 55296) raises \<open>UnicodeEncodeError\<close>.
\<close>

theorem export_import_contain_errors_witness:
  "fst (export_body None ascii_lower (world_of new_manager (Blocked PermissionError)) (lit ''out.json'') (lit ''json''))
     = Raise PermissionError
   \<and> fst (export_tasks ascii_lower (world_of new_manager (Blocked PermissionError)) (lit ''out.json'') (lit ''json''))
     = Return False
   \<and> fst (import_body None ascii_lower (\<lambda>k. lit ''2024-05-02 09:00:00'') (world_of new_manager Absent)
        (lit ''in.json'') (lit ''JSON'')) = Raise FileNotFoundError
   \<and> fst (import_tasks ascii_lower (\<lambda>k. lit ''2024-05-02 09:00:00'') (world_of new_manager Absent)
        (lit ''in.json'') (lit ''JSON'')) = Return False
   \<and> fst (import_tasks ascii_lower (\<lambda>k. lit ''2024-05-02 09:00:00'')
        (world_of new_manager (Holds (NotJson JSONDecodeError))) (lit ''in.json'') (lit ''json'')) = Return False
   \<and> fst (export_tasks_on (Some UnicodeEncodeError) ascii_lower (world_of new_manager (Blocked PermissionError))
        (lit ''out.json'') (lit ''json'')) = Raise UnicodeEncodeError
   \<and> fst (save_tasks ((world_of new_manager Absent)\<lparr>write_fault := (\<lambda>p. Some OSError)\<rparr>)) = Raise OSError
   \<and> fst (save_tasks (world_of (new_manager\<lparr>tasks := [plain_task 1 [55296]]\<rparr>) Absent))
     = Raise UnicodeEncodeError"
proof -
  let ?clock = "\<lambda>k::nat. lit ''2024-05-02 09:00:00''"
  let ?wf = "(world_of new_manager Absent)\<lparr>write_fault := (\<lambda>p. Some OSError)\<rparr>"
  let ?ws = "world_of (new_manager\<lparr>tasks := [plain_task 1 [55296]]\<rparr>) Absent"
  have a: "fst (export_body None ascii_lower (world_of new_manager (Blocked PermissionError)) (lit ''out.json'') (lit ''json''))
     = Raise PermissionError"
    by (simp add: export_body_def then_print_def write_json_def world_of_def ascii_lower_def lit_def)
  have b: "fst (import_body None ascii_lower ?clock (world_of new_manager Absent)
        (lit ''in.json'') (lit ''JSON'')) = Raise FileNotFoundError"
    by (simp add: import_body_def then_print_def read_tasks_def read_json_def world_of_def ascii_lower_def lit_def)
  have c: "fst (import_body None ascii_lower ?clock
        (world_of new_manager (Holds (NotJson JSONDecodeError))) (lit ''in.json'') (lit ''json'')) = Raise JSONDecodeError"
    by (simp add: import_body_def then_print_def read_tasks_def read_json_def world_of_def ascii_lower_def lit_def)
  have f: "(\<forall>b. files ?wf (filename (mgr ?wf)) \<noteq> Blocked b) \<and> write_fault ?wf (filename (mgr ?wf)) = Some OSError"
    by (simp add: world_of_def)
  have s: "(\<forall>b. files ?ws (filename (mgr ?ws)) \<noteq> Blocked b) \<and> write_fault ?ws (filename (mgr ?ws)) = None
        \<and> \<not> list_all task_encodable (tasks (mgr ?ws))"
    by (simp add: world_of_def task_encodable_def encodable_def surrogate_def plain_task_def)
  have x: "fst (export_tasks ascii_lower (world_of new_manager (Blocked PermissionError)) (lit ''out.json'') (lit ''json''))
     = Return False"
    using a export_import_contain_errors [of ascii_lower "world_of new_manager (Blocked PermissionError)"
        "lit ''out.json''" "lit ''json''" PermissionError]
    by blast
  have i1: "fst (import_tasks ascii_lower ?clock (world_of new_manager Absent) (lit ''in.json'') (lit ''JSON''))
      = Return False"
    using b export_import_contain_errors [of ascii_lower "world_of new_manager Absent"
        "lit ''in.json''" "lit ''JSON''" FileNotFoundError ?clock]
    by blast
  have i2: "fst (import_tasks ascii_lower ?clock (world_of new_manager (Holds (NotJson JSONDecodeError)))
        (lit ''in.json'') (lit ''json'')) = Return False"
    using c export_import_contain_errors [of ascii_lower "world_of new_manager (Holds (NotJson JSONDecodeError))"
        "lit ''in.json''" "lit ''json''" JSONDecodeError ?clock]
    by blast
  have p: "fst (export_tasks_on (Some UnicodeEncodeError) ascii_lower (world_of new_manager (Blocked PermissionError))
        (lit ''out.json'') (lit ''json'')) = Raise UnicodeEncodeError"
    using export_import_contain_errors [of ascii_lower "world_of new_manager (Blocked PermissionError)"
        "lit ''out.json''" "lit ''json''" UnicodeEncodeError]
    by blast
  have sf: "fst (save_tasks ?wf) = Raise OSError"
    using f export_import_contain_errors [of lower ?wf pth fmt OSError] by blast
  have ss: "fst (save_tasks ?ws) = Raise UnicodeEncodeError"
    using s export_import_contain_errors [of lower ?ws pth fmt e] by blast
  show ?thesis using a b x i1 i2 p sf ss by simp
qed

text \<open>
  Claim C5 as stated fails. When the backing file cannot be opened for writing,
  \<open>save_tasks\<close> raises \<open>PermissionError\<close> to its caller. And on a console that refuses
  the messages with \<open>UnicodeEncodeError\<close>, an export that wrote its file raises that
  error to its caller.
\<close>

theorem save_raises_to_caller:
  "save_tasks (world_of (new_manager\<lparr>tasks := [plain_task 1 (lit ''Buy milk'')]\<rparr>) (Blocked PermissionError))
     = (Raise PermissionError,
        world_of (new_manager\<lparr>tasks := [plain_task 1 (lit ''Buy milk'')]\<rparr>) (Blocked PermissionError))
   \<and> fst (export_tasks_on (Some UnicodeEncodeError) ascii_lower
        (world_of (new_manager\<lparr>tasks := [plain_task 1 (lit ''Buy milk'')]\<rparr>) Absent)
        (lit ''out.json'') (lit ''json'')) = Raise UnicodeEncodeError"
  by (simp add: save_tasks_def write_json_def world_of_def export_tasks_on_def export_body_def
      then_print_def except_Exception_def ascii_lower_def lit_def task_encodable_def encodable_def
      surrogate_def or_empty_def plain_task_def)




section \<open>The round trips\<close>

lemma as_strs_map_JStr: "as_strs (map JStr xs) = Some xs"
  by (induction xs) simp_all

lemma from_dict_to_dict: "no_empty_option t \<Longrightarrow> from_dict (to_dict t) = Return t"
  by (cases "priority t"; cases "due_date t")
     (simp_all add: no_empty_option_def from_dict_def to_dict_def lit_def as_strs_map_JStr)

lemma from_dicts_to_dict:
  "\<forall>t\<in>set ts. no_empty_option t \<Longrightarrow> from_dicts (map to_dict ts) = Return ts"
  by (induction ts) (simp_all add: from_dict_to_dict)

lemma read_tasks_written:
  "\<forall>t\<in>set ts. no_empty_option t \<Longrightarrow> read_tasks (Holds (JsonText (JArr (map to_dict ts)))) = Return ts"
  by (simp add: read_tasks_def read_json_def from_dicts_to_dict)

lemma split_comma_plain: "44 \<notin> set s \<Longrightarrow> split_comma s = [s]"
  by (induction s) auto

lemma split_comma_append: "44 \<notin> set s \<Longrightarrow> split_comma (s @ 44 # r) = s # split_comma r"
  by (induction s) auto

lemma split_join_comma:
  "xs \<noteq> [] \<Longrightarrow> \<forall>s\<in>set xs. 44 \<notin> set s \<Longrightarrow> split_comma (join_comma xs) = xs"
  by (induction xs rule: join_comma.induct) (simp_all add: split_comma_plain split_comma_append)

lemma join_comma_empty: "xs \<noteq> [] \<Longrightarrow> \<forall>s\<in>set xs. s \<noteq> [] \<Longrightarrow> join_comma xs \<noteq> []"
  by (induction xs rule: join_comma.induct) simp_all

lemma foldl_add_tag_fresh:
  "distinct (tags t @ xs) \<Longrightarrow> [] \<notin> set xs \<Longrightarrow> foldl add_tag t xs = t\<lparr>tags := tags t @ xs\<rparr>"
proof (induction xs arbitrary: t)
  case Nil
  then show ?case by simp
next
  case (Cons x xs)
  have a: "add_tag t x = t\<lparr>tags := tags t @ [x]\<rparr>" using Cons.prems by (auto simp: add_tag_def)
  have "foldl add_tag (t\<lparr>tags := tags t @ [x]\<rparr>) xs
      = (t\<lparr>tags := tags t @ [x]\<rparr>)\<lparr>tags := tags (t\<lparr>tags := tags t @ [x]\<rparr>) @ xs\<rparr>"
    using Cons.prems by (intro Cons.IH) auto
  then show ?case using a by simp
qed

lemma done_not_active: "done_label \<noteq> active_label" "active_label \<noteq> done_label"
  by (simp_all add: done_label_def active_label_def)

lemma tags_round_trip:
  assumes "plain_tags t"
  shows "map strip (if length (csv_row t) > 6 \<and> csv_row t ! 6 \<noteq> [] then split_comma (csv_row t ! 6) else [])
      = tags t"
proof (cases "tags t = []")
  case True
  then show ?thesis by (simp add: csv_row_def)
next
  case False
  have p: "\<forall>s\<in>set (tags t). s \<noteq> [] \<and> 44 \<notin> set s \<and> strip s = s"
    using assms by (simp add: plain_tags_def list_all_iff)
  have j: "join_comma (tags t) \<noteq> []" using False p by (intro join_comma_empty) auto
  have s: "split_comma (join_comma (tags t)) = tags t" using False p by (intro split_join_comma) auto
  have m: "map strip (tags t) = tags t" using p by (simp add: map_idI)
  show ?thesis using j s m by (simp add: csv_row_def)
qed

lemma row_task_csv_row:
  assumes "no_empty_option t" "plain_tags t"
  shows "row_task now n (csv_row t) = t\<lparr>task_id := n, created_at := now\<rparr>"
proof -
  let ?t0 = "\<lparr>task_id = n, title = title t, completed = completed t, created_at = now,
      priority = priority t, due_date = due_date t, tags = []\<rparr>"
  have d: "distinct (tags ?t0 @ tags t)" "[] \<notin> set (tags t)"
    using assms(2) by (auto simp: plain_tags_def list_all_iff)
  have "row_task now n (csv_row t) = foldl add_tag ?t0 (tags t)"
    unfolding row_task_def tags_round_trip[OF assms(2)]
    using assms(1)
    by (cases "priority t"; cases "due_date t")
       (simp_all add: csv_row_def or_empty_def done_not_active no_empty_option_def)
  also have "\<dots> = ?t0\<lparr>tags := tags ?t0 @ tags t\<rparr>" using d by (rule foldl_add_tag_fresh)
  also have "\<dots> = t\<lparr>task_id := n, created_at := now\<rparr>" by simp
  finally show ?thesis .
qed

lemma filter_csv_rows: "filter (\<lambda>r. 6 \<le> length r) (map csv_row ts) = map csv_row ts"
  by (induction ts) (simp_all add: csv_row_def)

lemma rows_tasks_csv_rows:
  assumes "\<forall>t\<in>set ts. no_empty_option t \<and> plain_tags t"
  shows "length (rows_tasks clock k n (map csv_row ts)) = length ts"
    and "j < length ts \<Longrightarrow>
      rows_tasks clock k n (map csv_row ts) ! j = (ts ! j)\<lparr>task_id := n + int j, created_at := clock (k + j)\<rparr>"
proof -
  show "length (rows_tasks clock k n (map csv_row ts)) = length ts"
    by (simp add: rows_tasks_nth(1) filter_csv_rows)
  assume j: "j < length ts"
  then have "j < length (filter (\<lambda>r. 6 \<le> length r) (map csv_row ts))"
    by (simp add: filter_csv_rows)
  then have "rows_tasks clock k n (map csv_row ts) ! j
      = row_task (clock (k + j)) (n + int j) (filter (\<lambda>r. 6 \<le> length r) (map csv_row ts) ! j)"
    by (rule rows_tasks_nth(2))
  also have "\<dots> = row_task (clock (k + j)) (n + int j) (csv_row (ts ! j))"
    using j by (simp add: filter_csv_rows)
  also have "\<dots> = (ts ! j)\<lparr>task_id := n + int j, created_at := clock (k + j)\<rparr>"
    using assms j by (intro row_task_csv_row) auto
  finally show "rows_tasks clock k n (map csv_row ts) ! j
      = (ts ! j)\<lparr>task_id := n + int j, created_at := clock (k + j)\<rparr>" .
qed

lemma save_tasks_returned:
  "fst (save_tasks w) = Return () \<Longrightarrow>
   snd (save_tasks w)
     = w\<lparr>files := (files w)(filename (mgr w) := Holds (JsonText (JArr (map to_dict (tasks (mgr w))))))\<rparr>"
  by (cases "files w (filename (mgr w))"; cases "write_fault w (filename (mgr w))")
     (simp_all add: save_tasks_cases split: if_splits)

lemma export_json_returned:
  "fst (export_tasks lower w path format) = Return True \<Longrightarrow> lower format = lit ''json'' \<Longrightarrow>
   snd (export_tasks lower w path format)
     = w\<lparr>files := (files w)(path := Holds (JsonText (JArr (map to_dict (tasks (mgr w))))))\<rparr>"
  by (cases "files w path"; cases "write_fault w path")
     (simp_all add: export_tasks_cases write_json_cases split: if_splits)

lemma export_csv_returned:
  "fst (export_tasks lower w path format) = Return True \<Longrightarrow> lower format = lit ''csv'' \<Longrightarrow>
   snd (export_tasks lower w path format)
     = w\<lparr>files := (files w)(path := Holds (CsvText (csv_header # map csv_row (tasks (mgr w))) None))\<rparr>"
  by (cases "files w path"; cases "write_fault w path")
     (simp_all add: export_tasks_cases write_csv_cases split: if_splits)

lemma read_csv_written:
  assumes "\<forall>t\<in>set ts. readable_row (csv_row t)"
  shows "read_csv (Holds (CsvText (csv_header # map csv_row ts) None)) = Return (csv_header # map csv_row ts, None)"
proof -
  have a: "list_all readable_row (csv_header # map csv_row ts)"
    using assms by (simp add: list_all_iff readable_samples)
  then have "takeWhile readable_row (csv_header # map csv_row ts) = csv_header # map csv_row ts"
    unfolding list_all_iff by (intro takeWhile_eq_all_conv[THEN iffD2]) blast
  then show ?thesis using a by (simp add: read_csv_def del: takeWhile.simps list.pred_inject)
qed

text \<open>
  Claim C2, as amended. For a collection in which no priority and no due date is the
  empty string: when \<open>save_tasks\<close> returns, loading by a manager on the same file
  succeeds and gives the collection itself, every field and the order as they were; when
  an export to JSON returns \<open>True\<close>, importing the file, by any manager, appends the
  tasks in their order, every field as it was but the id, which is renumbered from the
  importing manager's next id. When moreover each task's tags are without duplicates and
  every tag is not empty, has no comma and no white space at its ends, and no field of a
  task's row is longer than the reader's field limit or holds the character NUL: when an
  export to CSV returns \<open>True\<close>, importing the file appends the tasks in their order
  with title, completion, priority, due date and tags as they were, the ids renumbered,
  and \<open>created_at\<close> set to the time of the import.
\<close>

theorem round_trip:
  "((\<forall>t\<in>set (tasks (mgr w)). no_empty_option t) \<and> fst (save_tasks w) = Return ()
      \<and> filename m' = filename (mgr w) \<longrightarrow>
      load_tasks ((snd (save_tasks w))\<lparr>mgr := m'\<rparr>)
          = (Return True, (snd (save_tasks w))\<lparr>mgr := m'\<lparr>tasks := tasks (mgr w)\<rparr>\<rparr>))
   \<and> ((\<forall>t\<in>set (tasks (mgr w)). no_empty_option t)
      \<and> fst (export_tasks lower w path format) = Return True \<and> lower format = lit ''json'' \<longrightarrow>
      import_tasks lower clock ((snd (export_tasks lower w path format))\<lparr>mgr := m'\<rparr>) path format
          = (Return True,
             (snd (export_tasks lower w path format))
               \<lparr>mgr := m'\<lparr>tasks := tasks m' @ assign_ids (generate_id m') (tasks (mgr w))\<rparr>\<rparr>)
      \<and> length (assign_ids (generate_id m') (tasks (mgr w))) = length (tasks (mgr w))
      \<and> (\<forall>j<length (tasks (mgr w)).
            assign_ids (generate_id m') (tasks (mgr w)) ! j
              = (tasks (mgr w) ! j)\<lparr>task_id := generate_id m' + int j\<rparr>))
   \<and> ((\<forall>t\<in>set (tasks (mgr w)).
          no_empty_option t \<and> plain_tags t \<and> readable_row (csv_row t) \<and> nul_free (csv_row t))
      \<and> fst (export_tasks lower w path format) = Return True \<and> lower format = lit ''csv'' \<longrightarrow>
      import_tasks lower clock ((snd (export_tasks lower w path format))\<lparr>mgr := m'\<rparr>) path format
          = (Return True,
             (snd (export_tasks lower w path format))
               \<lparr>mgr := m'\<lparr>tasks := tasks m' @ rows_tasks clock 0 (generate_id m') (map csv_row (tasks (mgr w)))\<rparr>\<rparr>)
      \<and> length (rows_tasks clock 0 (generate_id m') (map csv_row (tasks (mgr w)))) = length (tasks (mgr w))
      \<and> (\<forall>j<length (tasks (mgr w)).
            rows_tasks clock 0 (generate_id m') (map csv_row (tasks (mgr w))) ! j
              = (tasks (mgr w) ! j)\<lparr>task_id := generate_id m' + int j, created_at := clock j\<rparr>))"
proof (intro conjI impI allI)
  assume h: "(\<forall>t\<in>set (tasks (mgr w)). no_empty_option t) \<and> fst (save_tasks w) = Return ()
      \<and> filename m' = filename (mgr w)"
  then have s: "snd (save_tasks w)
      = w\<lparr>files := (files w)(filename (mgr w) := Holds (JsonText (JArr (map to_dict (tasks (mgr w))))))\<rparr>"
    by (simp add: save_tasks_returned)
  show "load_tasks ((snd (save_tasks w))\<lparr>mgr := m'\<rparr>)
          = (Return True, (snd (save_tasks w))\<lparr>mgr := m'\<lparr>tasks := tasks (mgr w)\<rparr>\<rparr>)"
    using h by (simp add: s load_tasks_cases read_tasks_written)
next
  assume h: "(\<forall>t\<in>set (tasks (mgr w)). no_empty_option t)
      \<and> fst (export_tasks lower w path format) = Return True \<and> lower format = lit ''json''"
  then have x: "snd (export_tasks lower w path format)
     = w\<lparr>files := (files w)(path := Holds (JsonText (JArr (map to_dict (tasks (mgr w))))))\<rparr>"
    by (simp add: export_json_returned)
  show "import_tasks lower clock ((snd (export_tasks lower w path format))\<lparr>mgr := m'\<rparr>) path format
          = (Return True,
             (snd (export_tasks lower w path format))
               \<lparr>mgr := m'\<lparr>tasks := tasks m' @ assign_ids (generate_id m') (tasks (mgr w))\<rparr>\<rparr>)"
    using h by (simp add: x import_tasks_cases read_tasks_written)
  show "length (assign_ids (generate_id m') (tasks (mgr w))) = length (tasks (mgr w))"
    by (rule assign_ids_nth(1))
  show "assign_ids (generate_id m') (tasks (mgr w)) ! j
              = (tasks (mgr w) ! j)\<lparr>task_id := generate_id m' + int j\<rparr>"
    if "j < length (tasks (mgr w))" for j
    using that by (rule assign_ids_nth(2))
next
  assume h: "(\<forall>t\<in>set (tasks (mgr w)).
          no_empty_option t \<and> plain_tags t \<and> readable_row (csv_row t) \<and> nul_free (csv_row t))
      \<and> fst (export_tasks lower w path format) = Return True \<and> lower format = lit ''csv''"
  then have x: "snd (export_tasks lower w path format)
     = w\<lparr>files := (files w)(path := Holds (CsvText (csv_header # map csv_row (tasks (mgr w))) None))\<rparr>"
    by (simp add: export_csv_returned)
  have all: "\<forall>t\<in>set (tasks (mgr w)). no_empty_option t \<and> plain_tags t" using h by blast
  have rd: "\<forall>t\<in>set (tasks (mgr w)). readable_row (csv_row t)" using h by blast
  show "import_tasks lower clock ((snd (export_tasks lower w path format))\<lparr>mgr := m'\<rparr>) path format
          = (Return True,
             (snd (export_tasks lower w path format))
               \<lparr>mgr := m'\<lparr>tasks := tasks m' @ rows_tasks clock 0 (generate_id m') (map csv_row (tasks (mgr w)))\<rparr>\<rparr>)"
    using h by (simp add: x import_tasks_cases read_csv_written[OF rd])
  show "length (rows_tasks clock 0 (generate_id m') (map csv_row (tasks (mgr w)))) = length (tasks (mgr w))"
    using all by (rule rows_tasks_csv_rows(1))
  show "rows_tasks clock 0 (generate_id m') (map csv_row (tasks (mgr w))) ! j
              = (tasks (mgr w) ! j)\<lparr>task_id := generate_id m' + int j, created_at := clock j\<rparr>"
    if "j < length (tasks (mgr w))" for j
    using rows_tasks_csv_rows(2)[OF all that, of clock 0 "generate_id m'"] by simp
qed


lemma sample_tasks_plain:
  "\<forall>t\<in>set [full_task, plain_task 5 (lit ''Clean'')].
     no_empty_option t \<and> plain_tags t \<and> readable_row (csv_row t) \<and> nul_free (csv_row t)"
  by (simp add: full_task_def plain_task_def no_empty_option_def plain_tags_def strip_def is_space_def
      lit_def high_label_def readable_row_def nul_free_def field_limit_def csv_row_def str_int_def
      str_nat.simps or_empty_def done_label_def active_label_def)

lemma sample_tasks_encodable: "list_all task_encodable [full_task, plain_task 5 (lit ''Clean'')]"
  by (simp add: full_task_def plain_task_def task_encodable_def encodable_def surrogate_def or_empty_def
      lit_def high_label_def)

text \<open>
  A collection of a completed task with priority, due date and two tags and of a plain
  task with the id 5, saved to an absent file and read by a new manager: the save
  returns and the load gives the two tasks; the exports return \<open>True\<close>, the JSON import
  gives the tasks with the ids 1 and 2, and the CSV import gives them with the ids 1 and
  2 and the time of the import.
\<close>

theorem round_trip_witness:
  "fst (save_tasks (world_of (new_manager\<lparr>tasks := [full_task, plain_task 5 (lit ''Clean'')]\<rparr>) Absent))
     = Return ()
   \<and> tasks (mgr (snd (load_tasks
       ((snd (save_tasks (world_of (new_manager\<lparr>tasks := [full_task, plain_task 5 (lit ''Clean'')]\<rparr>) Absent)))
          \<lparr>mgr := new_manager\<rparr>))))
     = [full_task, plain_task 5 (lit ''Clean'')]
   \<and> fst (export_tasks ascii_lower
            (world_of (new_manager\<lparr>tasks := [full_task, plain_task 5 (lit ''Clean'')]\<rparr>) Absent)
            (lit ''out.json'') (lit ''json'')) = Return True
   \<and> tasks (mgr (snd (import_tasks ascii_lower (\<lambda>k. lit ''2024-05-02 09:00:00'')
       ((snd (export_tasks ascii_lower
                (world_of (new_manager\<lparr>tasks := [full_task, plain_task 5 (lit ''Clean'')]\<rparr>) Absent)
                (lit ''out.json'') (lit ''json'')))
          \<lparr>mgr := new_manager\<rparr>) (lit ''out.json'') (lit ''json''))))
     = [full_task\<lparr>task_id := 1\<rparr>, (plain_task 5 (lit ''Clean''))\<lparr>task_id := 2\<rparr>]
   \<and> fst (export_tasks ascii_lower
            (world_of (new_manager\<lparr>tasks := [full_task, plain_task 5 (lit ''Clean'')]\<rparr>) Absent)
            (lit ''out.csv'') (lit ''csv'')) = Return True
   \<and> tasks (mgr (snd (import_tasks ascii_lower (\<lambda>k. lit ''2024-05-02 09:00:00'')
       ((snd (export_tasks ascii_lower
                (world_of (new_manager\<lparr>tasks := [full_task, plain_task 5 (lit ''Clean'')]\<rparr>) Absent)
                (lit ''out.csv'') (lit ''csv'')))
          \<lparr>mgr := new_manager\<rparr>) (lit ''out.csv'') (lit ''csv''))))
     = [full_task\<lparr>task_id := 1, created_at := lit ''2024-05-02 09:00:00''\<rparr>,
        (plain_task 5 (lit ''Clean''))\<lparr>task_id := 2, created_at := lit ''2024-05-02 09:00:00''\<rparr>]"
proof -
  let ?ts = "[full_task, plain_task 5 (lit ''Clean'')]"
  let ?w = "world_of (new_manager\<lparr>tasks := ?ts\<rparr>) Absent"
  let ?clock = "\<lambda>k::nat. lit ''2024-05-02 09:00:00''"
  have ts: "tasks (mgr ?w) = ?ts" by (simp add: mgr_world_of)
  have p: "\<forall>t\<in>set (tasks (mgr ?w)).
      no_empty_option t \<and> plain_tags t \<and> readable_row (csv_row t) \<and> nul_free (csv_row t)"
    unfolding ts by (rule sample_tasks_plain)
  then have q: "\<forall>t\<in>set (tasks (mgr ?w)). no_empty_option t" by blast
  have enc: "list_all task_encodable (tasks (mgr ?w))"
    unfolding ts by (rule sample_tasks_encodable)
  have fn: "filename new_manager = filename (mgr ?w)" by (simp add: mgr_world_of)
  have lj: "ascii_lower (lit ''json'') = lit ''json''" and lc: "ascii_lower (lit ''csv'') = lit ''csv''"
    by (simp_all add: ascii_lower_def lit_def)
  have sv: "fst (save_tasks ?w) = Return ()"
    using enc by (simp add: save_tasks_cases mgr_world_of del: list.pred_inject)
  have xj: "fst (export_tasks ascii_lower ?w (lit ''out.json'') (lit ''json'')) = Return True"
    using enc by (simp add: export_tasks_cases write_json_cases lj mgr_world_of del: list.pred_inject)
  have xc: "fst (export_tasks ascii_lower ?w (lit ''out.csv'') (lit ''csv'')) = Return True"
    using enc by (simp add: export_tasks_cases write_csv_cases lc mgr_world_of del: list.pred_inject)
  have g: "generate_id new_manager = 1" by (simp add: generate_id_def new_manager_def)
  have a: "load_tasks ((snd (save_tasks ?w))\<lparr>mgr := new_manager\<rparr>)
      = (Return True, (snd (save_tasks ?w))\<lparr>mgr := new_manager\<lparr>tasks := tasks (mgr ?w)\<rparr>\<rparr>)"
    using q sv fn round_trip [of ?w new_manager] by blast
  have b: "import_tasks ascii_lower ?clock
        ((snd (export_tasks ascii_lower ?w (lit ''out.json'') (lit ''json'')))\<lparr>mgr := new_manager\<rparr>)
        (lit ''out.json'') (lit ''json'')
      = (Return True, (snd (export_tasks ascii_lower ?w (lit ''out.json'') (lit ''json'')))
           \<lparr>mgr := new_manager\<lparr>tasks := tasks new_manager
               @ assign_ids (generate_id new_manager) (tasks (mgr ?w))\<rparr>\<rparr>)"
    using q xj lj round_trip [of ?w new_manager ascii_lower "lit ''out.json''" "lit ''json''" ?clock] by blast
  have c: "import_tasks ascii_lower ?clock
        ((snd (export_tasks ascii_lower ?w (lit ''out.csv'') (lit ''csv'')))\<lparr>mgr := new_manager\<rparr>)
        (lit ''out.csv'') (lit ''csv'')
      = (Return True, (snd (export_tasks ascii_lower ?w (lit ''out.csv'') (lit ''csv'')))
           \<lparr>mgr := new_manager\<lparr>tasks := tasks new_manager
               @ rows_tasks ?clock 0 (generate_id new_manager) (map csv_row (tasks (mgr ?w)))\<rparr>\<rparr>)"
    and len: "length (rows_tasks ?clock 0 (generate_id new_manager) (map csv_row (tasks (mgr ?w))))
      = length (tasks (mgr ?w))"
    and nth: "\<forall>j<length (tasks (mgr ?w)).
      rows_tasks ?clock 0 (generate_id new_manager) (map csv_row (tasks (mgr ?w))) ! j
        = (tasks (mgr ?w) ! j)\<lparr>task_id := generate_id new_manager + int j, created_at := ?clock j\<rparr>"
    using p xc lc round_trip [of ?w new_manager ascii_lower "lit ''out.csv''" "lit ''csv''" ?clock] by blast+
  have rows: "rows_tasks ?clock 0 (generate_id new_manager) (map csv_row (tasks (mgr ?w)))
      = [full_task\<lparr>task_id := 1, created_at := lit ''2024-05-02 09:00:00''\<rparr>,
         (plain_task 5 (lit ''Clean''))\<lparr>task_id := 2, created_at := lit ''2024-05-02 09:00:00''\<rparr>]"
  proof (rule nth_equalityI)
    show "length (rows_tasks ?clock 0 (generate_id new_manager) (map csv_row (tasks (mgr ?w))))
        = length [full_task\<lparr>task_id := 1, created_at := lit ''2024-05-02 09:00:00''\<rparr>,
         (plain_task 5 (lit ''Clean''))\<lparr>task_id := 2, created_at := lit ''2024-05-02 09:00:00''\<rparr>]"
      using len by (simp add: ts)
    fix i assume "i < length (rows_tasks ?clock 0 (generate_id new_manager) (map csv_row (tasks (mgr ?w))))"
    then have "i < 2" using len by (simp add: ts)
    then consider "i = 0" | "i = 1" by linarith
    then show "rows_tasks ?clock 0 (generate_id new_manager) (map csv_row (tasks (mgr ?w))) ! i
        = [full_task\<lparr>task_id := 1, created_at := lit ''2024-05-02 09:00:00''\<rparr>,
         (plain_task 5 (lit ''Clean''))\<lparr>task_id := 2, created_at := lit ''2024-05-02 09:00:00''\<rparr>] ! i"
      using nth by cases (simp_all add: ts g)
  qed
  have r1: "tasks (mgr (snd (load_tasks ((snd (save_tasks ?w))\<lparr>mgr := new_manager\<rparr>)))) = ?ts"
    by (simp only: a) (simp add: mgr_world_of)
  have r2: "tasks (mgr (snd (import_tasks ascii_lower ?clock
        ((snd (export_tasks ascii_lower ?w (lit ''out.json'') (lit ''json'')))\<lparr>mgr := new_manager\<rparr>)
        (lit ''out.json'') (lit ''json''))))
     = [full_task\<lparr>task_id := 1\<rparr>, (plain_task 5 (lit ''Clean''))\<lparr>task_id := 2\<rparr>]"
    by (simp only: b) (simp add: mgr_world_of generate_id_def new_manager_def)
  have r3: "tasks (mgr (snd (import_tasks ascii_lower ?clock
        ((snd (export_tasks ascii_lower ?w (lit ''out.csv'') (lit ''csv'')))\<lparr>mgr := new_manager\<rparr>)
        (lit ''out.csv'') (lit ''csv''))))
     = [full_task\<lparr>task_id := 1, created_at := lit ''2024-05-02 09:00:00''\<rparr>,
        (plain_task 5 (lit ''Clean''))\<lparr>task_id := 2, created_at := lit ''2024-05-02 09:00:00''\<rparr>]"
    by (simp only: c rows) (simp add: new_manager_def)
  show ?thesis using sv xj xc r1 r2 r3 by simp
qed

text \<open>
  Claim C2 as stated fails. A task created at 2024-05-01 09:00:00 is exported to CSV and
  the file imported by a new manager at 2024-05-02 09:00:00: both return \<open>True\<close>, and
  the imported task has the time of the import as \<open>created_at\<close>. And a task whose
  priority is the empty string is saved and loaded: the loaded task has no priority.
\<close>

theorem csv_round_trip_loses_created_at:
  "tasks (mgr (world_of (new_manager\<lparr>tasks := [plain_task 1 (lit ''Buy milk'')]\<rparr>) Absent))
     = [plain_task 1 (lit ''Buy milk'')]
   \<and> created_at (plain_task 1 (lit ''Buy milk'')) = lit ''2024-05-01 09:00:00''
   \<and> fst (export_tasks ascii_lower (world_of (new_manager\<lparr>tasks := [plain_task 1 (lit ''Buy milk'')]\<rparr>) Absent)
        (lit ''out.csv'') (lit ''csv'')) = Return True
   \<and> fst (import_tasks ascii_lower (\<lambda>k. lit ''2024-05-02 09:00:00'')
        ((snd (export_tasks ascii_lower
                 (world_of (new_manager\<lparr>tasks := [plain_task 1 (lit ''Buy milk'')]\<rparr>) Absent)
                 (lit ''out.csv'') (lit ''csv'')))\<lparr>mgr := new_manager\<rparr>)
        (lit ''out.csv'') (lit ''csv'')) = Return True
   \<and> tasks (mgr (snd (import_tasks ascii_lower (\<lambda>k. lit ''2024-05-02 09:00:00'')
        ((snd (export_tasks ascii_lower
                 (world_of (new_manager\<lparr>tasks := [plain_task 1 (lit ''Buy milk'')]\<rparr>) Absent)
                 (lit ''out.csv'') (lit ''csv'')))\<lparr>mgr := new_manager\<rparr>)
        (lit ''out.csv'') (lit ''csv''))))
     = [(plain_task 1 (lit ''Buy milk''))\<lparr>created_at := lit ''2024-05-02 09:00:00''\<rparr>]
   \<and> lit ''2024-05-02 09:00:00'' \<noteq> lit ''2024-05-01 09:00:00''
   \<and> fst (save_tasks (world_of (new_manager\<lparr>tasks := [prio_task 1 (Some [])]\<rparr>) Absent)) = Return ()
   \<and> tasks (mgr (snd (load_tasks ((snd (save_tasks
          (world_of (new_manager\<lparr>tasks := [prio_task 1 (Some [])]\<rparr>) Absent)))\<lparr>mgr := new_manager\<rparr>))))
     = [prio_task 1 None]
   \<and> prio_task 1 (Some []) \<noteq> prio_task 1 None"
proof -
  let ?m = "new_manager\<lparr>tasks := [plain_task 1 (lit ''Buy milk'')]\<rparr>"
  let ?clock = "\<lambda>k::nat. lit ''2024-05-02 09:00:00''"
  let ?file = "Holds (CsvText [csv_header, csv_row (plain_task 1 (lit ''Buy milk''))] None)"
  let ?mp = "new_manager\<lparr>tasks := [prio_task 1 (Some [])]\<rparr>"
  let ?json = "Holds (JsonText (JArr [to_dict (prio_task 1 (Some []))]))"
  have l: "ascii_lower (lit ''csv'') = lit ''csv''" by (simp add: ascii_lower_def lit_def)
  have e1: "list_all task_encodable (tasks ?m)"
    by (simp add: plain_task_def task_encodable_def encodable_def surrogate_def or_empty_def lit_def)
  have e2: "list_all task_encodable (tasks ?mp)"
    by (simp add: prio_task_def plain_task_def task_encodable_def encodable_def surrogate_def or_empty_def lit_def)
  have x: "export_tasks ascii_lower (world_of ?m Absent) (lit ''out.csv'') (lit ''csv'')
     = (Return True, (world_of ?m Absent)\<lparr>files := (\<lambda>p. Absent)(lit ''out.csv'' := ?file)\<rparr>)"
    using e1 by (simp add: export_tasks_cases write_csv_cases l world_of_def del: list.pred_inject)
  have rr: "readable_row (csv_row (plain_task 1 (lit ''Buy milk'')))"
    by (simp add: readable_row_def field_limit_def csv_row_def plain_task_def str_int_def str_nat.simps
        or_empty_def active_label_def lit_def)
  have rd: "read_csv ?file = Return ([csv_header, csv_row (plain_task 1 (lit ''Buy milk''))], None)"
    by (simp add: read_csv_def readable_samples rr)
  have t: "rows_tasks ?clock 0 (generate_id new_manager) [csv_row (plain_task 1 (lit ''Buy milk''))]
      = [(plain_task 1 (lit ''Buy milk''))\<lparr>created_at := lit ''2024-05-02 09:00:00''\<rparr>]"
    by (simp add: row_task_def csv_row_def generate_id_def plain_task_def new_manager_def
        active_label_def done_label_def or_empty_def)
  have i: "import_tasks ascii_lower ?clock
        ((world_of ?m Absent)\<lparr>files := (\<lambda>p. Absent)(lit ''out.csv'' := ?file), mgr := new_manager\<rparr>)
        (lit ''out.csv'') (lit ''csv'')
     = (Return True,
        (world_of ?m Absent)\<lparr>files := (\<lambda>p. Absent)(lit ''out.csv'' := ?file),
          mgr := new_manager\<lparr>tasks := tasks new_manager
             @ rows_tasks ?clock 0 (generate_id new_manager) [csv_row (plain_task 1 (lit ''Buy milk''))]\<rparr>\<rparr>)"
    by (simp add: import_tasks_cases l rd del: rows_tasks.simps)
  have s: "save_tasks (world_of ?mp Absent)
      = (Return (), (world_of ?mp Absent)\<lparr>files := (\<lambda>p. Absent)(filename ?mp := ?json)\<rparr>)"
    using e2 by (simp add: save_tasks_cases world_of_def del: list.pred_inject)
  have ld: "read_tasks ?json = Return [prio_task 1 None]"
    by (simp add: read_tasks_def read_json_def from_dict_def to_dict_def prio_task_def plain_task_def lit_def)
  have r1: "tasks (mgr (snd (import_tasks ascii_lower ?clock
        ((snd (export_tasks ascii_lower (world_of ?m Absent) (lit ''out.csv'') (lit ''csv'')))\<lparr>mgr := new_manager\<rparr>)
        (lit ''out.csv'') (lit ''csv''))))
      = [(plain_task 1 (lit ''Buy milk''))\<lparr>created_at := lit ''2024-05-02 09:00:00''\<rparr>]"
    by (simp only: x snd_conv i t) (simp add: new_manager_def)
  have r0: "fst (import_tasks ascii_lower ?clock
        ((snd (export_tasks ascii_lower (world_of ?m Absent) (lit ''out.csv'') (lit ''csv'')))\<lparr>mgr := new_manager\<rparr>)
        (lit ''out.csv'') (lit ''csv'')) = Return True"
    by (simp only: x snd_conv i fst_conv)
  have r2: "tasks (mgr (snd (load_tasks ((snd (save_tasks (world_of ?mp Absent)))\<lparr>mgr := new_manager\<rparr>))))
      = [prio_task 1 None]"
    by (simp only: s snd_conv) (simp add: load_tasks_cases ld new_manager_def)
  have d: "prio_task 1 (Some []) \<noteq> prio_task 1 None"
    by (simp add: prio_task_def plain_task_def)
  show ?thesis
    using x r0 r1 s r2 d by (simp add: mgr_world_of plain_task_def lit_def)
qed

end
